theory Spec2Isabelle
  imports Main
begin

section \<open>Strings and POSIX path functions used by the scripts\<close>

text \<open>
  Both scripts call \<^verbatim>\<open>os.path\<close> (the POSIX flavour, \<^verbatim>\<open>posixpath\<close>) and
  \<^verbatim>\<open>str.lower\<close>. A Python string is modelled as a \<open>string\<close>; the separator is
  \<open>CHR ''/''\<close>. \<^verbatim>\<open>str.lower\<close> is only ever compared with the ASCII literals
  \<^verbatim>\<open>'.fbx'\<close> and \<^verbatim>\<open>'textures'\<close>, so lowering the ASCII capitals is what matters.
\<close>

definition lower_char :: "char \<Rightarrow> char" where
  "lower_char c =
     (case map_of (zip ''ABCDEFGHIJKLMNOPQRSTUVWXYZ'' ''abcdefghijklmnopqrstuvwxyz'') c of
        Some d \<Rightarrow> d
      | None \<Rightarrow> c)"

definition lower :: "string \<Rightarrow> string" where
  "lower s = map lower_char s"

text \<open>\<^verbatim>\<open>sub in s\<close> on strings.\<close>

fun str_contains :: "string \<Rightarrow> string \<Rightarrow> bool" where
  "str_contains sub [] = (sub = [])"
| "str_contains sub (c # cs) = (take (length sub) (c # cs) = sub \<or> str_contains sub cs)"

text \<open>\<^verbatim>\<open>s.endswith(suffix)\<close>.\<close>

definition endswith :: "string \<Rightarrow> string \<Rightarrow> bool" where
  "endswith s suffix = (length suffix \<le> length s \<and> drop (length s - length suffix) s = suffix)"

text \<open>
  \<^verbatim>\<open>posixpath.basename\<close>: \<^verbatim>\<open>i = p.rfind('/') + 1; return p[i:]\<close>.
\<close>

definition basename :: "string \<Rightarrow> string" where
  "basename p = rev (takeWhile (\<lambda>c. c \<noteq> CHR ''/'') (rev p))"

text \<open>
  \<^verbatim>\<open>posixpath.dirname\<close>: \<^verbatim>\<open>head = p[:i]\<close>, and
  \<^verbatim>\<open>if head and head != sep*len(head): head = head.rstrip(sep)\<close>.
\<close>

definition dirname :: "string \<Rightarrow> string" where
  "dirname p =
     (let head = rev (dropWhile (\<lambda>c. c \<noteq> CHR ''/'') (rev p))
      in if head \<noteq> [] \<and> head \<noteq> replicate (length head) (CHR ''/'')
         then rev (dropWhile (\<lambda>c. c = CHR ''/'') (rev head))
         else head)"

text \<open>
  \<^verbatim>\<open>posixpath.join(a, b)\<close> for two arguments: \<^verbatim>\<open>b\<close> alone when it starts with the
  separator, plain concatenation when \<^verbatim>\<open>a\<close> is empty or ends with the separator, and the
  two joined by one separator otherwise.
\<close>

definition join :: "string \<Rightarrow> string \<Rightarrow> string" where
  "join a b =
     (if b \<noteq> [] \<and> hd b = CHR ''/'' then b
      else if a = [] \<or> last a = CHR ''/'' then a @ b
      else a @ ''/'' @ b)"

text \<open>
  \<^verbatim>\<open>posixpath.splitext\<close> (\<^verbatim>\<open>genericpath._splitext\<close>): the extension starts at the last
  dot, when that dot comes after the last separator and some character between the
  separator and the dot is not itself a dot; otherwise the extension is empty.
\<close>

definition splitext :: "string \<Rightarrow> string \<times> string" where
  "splitext p =
     (let e = rev (takeWhile (\<lambda>c. c \<noteq> CHR ''.'') (rev p));
          r = take (length p - length e - 1) p
      in if CHR ''.'' \<in> set p \<and> CHR ''/'' \<notin> set e \<and> list_ex (\<lambda>c. c \<noteq> CHR ''.'') (basename r)
         then (r, CHR ''.'' # e)
         else (p, []))"

text \<open>\<^verbatim>\<open>posixpath.isabs\<close>.\<close>

definition isabs :: "string \<Rightarrow> bool" where
  "isabs p = (p \<noteq> [] \<and> hd p = CHR ''/'')"

section \<open>Variant A: the derived output path (textureUnpacker.py, lines 14-24)\<close>

text \<open>
  \<^verbatim>\<open>name_root, name_ext = os.path.splitext(base_name)\<close>; the extension is replaced by
  \<^verbatim>\<open>'.fbx'\<close> when its lower-case form is not \<^verbatim>\<open>'.fbx'\<close>, and kept as written otherwise.
\<close>

definition output_ext :: "string \<Rightarrow> string" where
  "output_ext name_ext = (if lower name_ext \<noteq> ''.fbx'' then ''.fbx'' else name_ext)"

definition output_filename :: "string \<Rightarrow> string" where
  "output_filename fbx_in_path =
     (let base_name = basename fbx_in_path;
          (name_root, name_ext) = splitext base_name
      in name_root @ ''_noTextures'' @ output_ext name_ext)"

definition fbx_out_path :: "string \<Rightarrow> string" where
  "fbx_out_path fbx_in_path = join (dirname fbx_in_path) (output_filename fbx_in_path)"

section \<open>The host application, as the scripts see it\<close>

text \<open>
  Everything behind \<^verbatim>\<open>bpy\<close> is an opaque collaborator: a run is modelled against a
  record of the answers the host gives. Exceptions are values. \<open>RuntimeError\<close> is what a
  failing operator raises; \<open>OtherException\<close> stands for any other subclass of
  \<^verbatim>\<open>Exception\<close> a call may raise, \<open>OSError\<close> for a failing filesystem call. The
  scripts themselves raise \<open>ValueError\<close> and \<open>FileNotFoundError\<close>.
\<close>

datatype exn =
    RuntimeError string
  | ValueError string
  | FileNotFoundError string
  | OSError string
  | OtherException string

text \<open>\<^verbatim>\<open>str(e)\<close>.\<close>

fun exn_str :: "exn \<Rightarrow> string" where
  "exn_str (RuntimeError m) = m"
| "exn_str (ValueError m) = m"
| "exn_str (FileNotFoundError m) = m"
| "exn_str (OSError m) = m"
| "exn_str (OtherException m) = m"

text \<open>Which handler of a \<^verbatim>\<open>try\<close> takes an exception: \<^verbatim>\<open>except RuntimeError\<close> comes first.\<close>

fun is_RuntimeError :: "exn \<Rightarrow> bool" where
  "is_RuntimeError (RuntimeError m) = True"
| "is_RuntimeError e = False"

text \<open>
  An image datablock (\<^verbatim>\<open>bpy.types.Image\<close>), with the attributes the scripts read.
  \<open>packed_file\<close> is the truth value of \<^verbatim>\<open>img.packed_file\<close>.
\<close>

record image =
  name :: string
  packed_file :: bool
  source :: string
  filepath :: string
  filepath_raw :: string

text \<open>A library datablock (\<^verbatim>\<open>bpy.data.libraries\<close>), scanned by variant A only.\<close>

record library =
  lib_name :: string
  lib_packed_file :: bool

text \<open>
  The filesystem: paths to nodes, each node with its identity (what
  \<^verbatim>\<open>os.path.samefile\<close> compares). A hard link is two paths to nodes of one identity.
\<close>

datatype node = File nat | Dir nat

type_synonym filesys = "(string \<times> node) list"

fun ident :: "node \<Rightarrow> nat" where
  "ident (File i) = i"
| "ident (Dir i) = i"

definition path_exists :: "filesys \<Rightarrow> string \<Rightarrow> bool" where
  "path_exists fs p = (map_of fs p \<noteq> None)"

definition isfile :: "filesys \<Rightarrow> string \<Rightarrow> bool" where
  "isfile fs p = (case map_of fs p of Some (File i) \<Rightarrow> True | _ \<Rightarrow> False)"

text \<open>\<^verbatim>\<open>os.path.samefile\<close> raises when it cannot stat one of the paths.\<close>

definition samefile :: "filesys \<Rightarrow> string \<Rightarrow> string \<Rightarrow> exn + bool" where
  "samefile fs a b =
     (case map_of fs a of
        None \<Rightarrow> Inl (FileNotFoundError a)
      | Some x \<Rightarrow>
          (case map_of fs b of
             None \<Rightarrow> Inl (FileNotFoundError b)
           | Some y \<Rightarrow> Inr (ident x = ident y)))"

text \<open>\<^verbatim>\<open>os.listdir\<close>: the names directly under a directory; raises on anything else.\<close>

definition listdir :: "filesys \<Rightarrow> string \<Rightarrow> exn + string list" where
  "listdir fs d =
     (case map_of fs d of
        None \<Rightarrow> Inl (FileNotFoundError d)
      | Some (File i) \<Rightarrow> Inl (OSError d)
      | Some (Dir i) \<Rightarrow> Inr (map basename (filter (\<lambda>q. q \<noteq> d \<and> dirname q = d) (map fst fs))))"

text \<open>
  A successful \<^verbatim>\<open>shutil.move(src, dst)\<close> onto a free path renames \<open>src\<close> and, when it is
  a directory, everything below it. A successful \<^verbatim>\<open>os.rmdir(d)\<close> removes the entry.
\<close>

definition rename_path :: "string \<Rightarrow> string \<Rightarrow> string \<Rightarrow> string" where
  "rename_path src dst q =
     (if q = src then dst
      else if take (length src + 1) q = src @ ''/'' then dst @ drop (length src) q
      else q)"

definition moved :: "filesys \<Rightarrow> string \<Rightarrow> string \<Rightarrow> filesys" where
  "moved fs src dst = map (\<lambda>(q, n). (rename_path src dst q, n)) fs"

definition removed :: "filesys \<Rightarrow> string \<Rightarrow> filesys" where
  "removed fs d = filter (\<lambda>(q, n). q \<noteq> d) fs"

text \<open>
  The answers of the host and of the operating system during one run.
  \<open>background\<close> is \<^verbatim>\<open>bpy.app.background\<close>, \<open>None\<close> when the attribute is absent.
  \<open>reset_ops k\<close> is what the \<open>k\<close>-th operator of the scene reset raises, if anything;
  \<open>import_fbx\<close>, \<open>makedirs\<close>, \<open>unpack_all\<close> and \<open>export_fbx\<close> likewise.
  \<open>images_loaded\<close> and \<open>libraries_loaded\<close> are \<^verbatim>\<open>bpy.data.images\<close> and
  \<^verbatim>\<open>bpy.data.libraries\<close> after the import, \<open>images_unpacked\<close> and \<open>files_unpacked\<close>
  the images and the filesystem once \<^verbatim>\<open>unpack_all\<close> has returned. \<open>files_start\<close> is the
  filesystem when the script starts. \<open>bpy_abspath\<close> is \<^verbatim>\<open>bpy.path.abspath\<close>;
  \<open>move_error\<close> and \<open>rmdir_error\<close> say which moves and removals the system refuses.
  \<open>parse_args\<close> is what \<^verbatim>\<open>parser.parse_args\<close> of the standard library does with the
  script's arguments: it returns the value of \<^verbatim>\<open>--input\<close>, or leaves through
  \<^verbatim>\<open>SystemExit\<close> with a code. \<open>os_abspath\<close> is \<^verbatim>\<open>os.path.abspath\<close> and
  \<open>os_getcwd\<close> is \<^verbatim>\<open>os.getcwd()\<close>, both fixed by the process's working directory.
  \<open>set_order\<close> is the order in which a \<^verbatim>\<open>for\<close> loop meets the elements of a Python
  set of folder names, which the language leaves open.
\<close>

datatype parse_result = Parsed string | Parse_exit "int option"

record host =
  background :: "bool option"
  reset_ops :: "nat \<Rightarrow> exn option"
  import_fbx :: "exn option"
  images_loaded :: "image list"
  libraries_loaded :: "library list"
  makedirs :: "exn option"
  unpack_all :: "exn option"
  images_unpacked :: "image list"
  export_fbx :: "exn option"
  files_start :: filesys
  files_unpacked :: filesys
  bpy_abspath :: "string \<Rightarrow> string"
  move_error :: "string \<Rightarrow> string \<Rightarrow> exn option"
  rmdir_error :: "string \<Rightarrow> exn option"
  parse_args :: "string list \<Rightarrow> parse_result"
  os_abspath :: "string \<Rightarrow> string"
  os_getcwd :: string
  set_order :: "string list \<Rightarrow> string list"

text \<open>\<^verbatim>\<open>hasattr(bpy.app, "background") and bpy.app.background\<close>.\<close>

definition headless :: "host \<Rightarrow> bool" where
  "headless h = (background h = Some True)"

section \<open>What a run does: calls into the host, and lines printed\<close>

datatype host_call =
    Select_all
  | Delete_objects
  | Orphans_purge
  | Import_scene string
  | Makedirs string
  | Unpack_all string
  | Export_scene string
  | Image_reload string
  | Shutil_move string string
  | Rmdir string
  | Quit_blender

text \<open>
  The per-asset and per-folder reports of the reconciliation. Each constructor is one
  \<^verbatim>\<open>print\<close> of the source, with the values it interpolates.
\<close>

datatype report =
    Verified_unpack string string
  | Still_packed_item string
  | Warn_source_missing string string
  | Info_already_at_target string string
  | Warn_target_exists string string
  | Error_processing string exn
  | Warn_still_packed string
  | Warn_unexpected_state string string string
  | Missing_item string
  | Failure_item string
  | Attempting_remove_dir string
  | Note_dir_not_empty string
  | Warn_could_not_remove string exn

text \<open>The other lines a run prints.\<close>

datatype progress =
    Warn_no_fbx_extension string
  | Error_identical_paths
  | Input_is string
  | Output_is string
  | Processing_fbx string
  | Outputting_to string
  | Target_directory string
  | Imported_ok
  | Error_importing exn
  | Found_packed nat nat
  | Attempting_unpack string
  | Target_unpack_dir string
  | Unpack_finished
  | Warn_still_packed_count nat
  | Successfully_unpacked nat
  | Note_unpack_reported exn
  | Error_during_unpack exn
  | Nothing_to_unpack
  | Exporting_to string
  | Exported_ok
  | Error_exporting exn
  | Processing_finished
  | Error_input_not_found string
  | Scanning_images string
  | Moving string string
  | Warn_missing_count nat
  | Finished_moving nat nat nat
  | Failures_header
  | Still_packed_header
  | Successfully_processed nat string
  | No_textures_moved
  | Exiting_blender
  | Script_finished
  | Info_ui_without_args
  | Arg_parsing_failed "int option"
  | Exiting_on_arg_error
  | Relative_resolved string string string
  | Original_input string

datatype event = Call host_call | Report report | Print progress

text \<open>
  How a run ends: it returns, it leaves through \<^verbatim>\<open>sys.exit(code)\<close> (a
  \<^verbatim>\<open>SystemExit\<close> with that code), or an exception escapes.
\<close>

datatype outcome = Returned | SystemExit "int option" | Raised exn

section \<open>Variant A: textureUnpacker.py\<close>

text \<open>
  A Python set or the keys of a dict built by a loop: each element once. The order of
  first occurrence stands for the iteration order, which Python leaves open for sets.
\<close>

definition first_occurrences :: "string list \<Rightarrow> string list" where
  "first_occurrences xs = rev (remdups (rev xs))"

text \<open>Operators called one after the other; the first that raises ends the sequence.\<close>

fun run_ops :: "(host_call \<times> exn option) list \<Rightarrow> event list \<times> exn option" where
  "run_ops [] = ([], None)"
| "run_ops ((c, r) # rest) =
     (case r of
        Some e \<Rightarrow> ([Call c], Some e)
      | None \<Rightarrow> (let (t, x) = run_ops rest in (Call c # t, x)))"

text \<open>
  The handler shared by the import, unpack and export steps of variant A (lines 54-58,
  116-120, 151-155): quit and exit with code 1 when headless, re-raise otherwise.
\<close>

definition fatal_A :: "host \<Rightarrow> exn \<Rightarrow> outcome \<times> event list" where
  "fatal_A h e =
     (if headless h then (SystemExit (Some 1), [Call Quit_blender]) else (Raised e, []))"

text \<open>
  Lines 94-102: \<^verbatim>\<open>bpy.data.images.get(img_name)\<close> for each name of the set; a found
  image that is unpacked with source \<^verbatim>\<open>'FILE'\<close> is counted and printed, one that is
  still packed is collected, and any other case is passed over in silence.
\<close>

definition images_get :: "image list \<Rightarrow> string \<Rightarrow> image option" where
  "images_get imgs n = find (\<lambda>i. name i = n) imgs"

fun verify_unpacked :: "image list \<Rightarrow> string list \<Rightarrow> nat \<times> string list \<times> event list" where
  "verify_unpacked imgs [] = (0, [], [])"
| "verify_unpacked imgs (img_name # rest) =
     (let (unpacked_count, still_packed, t) = verify_unpacked imgs rest
      in case images_get imgs img_name of
           None \<Rightarrow> (unpacked_count, still_packed, t)
         | Some img \<Rightarrow>
             if \<not> packed_file img \<and> source img = ''FILE''
             then (Suc unpacked_count, still_packed,
                   Report (Verified_unpack img_name (filepath_raw img)) # t)
             else if packed_file img
             then (unpacked_count, (''Image '' @ CHR 0x27 # img_name @ [CHR 0x27]) # still_packed, t)
             else (unpacked_count, still_packed, t))"

text \<open>Lines 61-65: the names packed before the unpack, images and libraries.\<close>

definition packed_images_before :: "host \<Rightarrow> string list" where
  "packed_images_before h = first_occurrences (map name (filter packed_file (images_loaded h)))"

definition packed_others_before :: "host \<Rightarrow> string list" where
  "packed_others_before h =
     first_occurrences (map lib_name (filter lib_packed_file (libraries_loaded h)))"

definition total_packed_before_A :: "host \<Rightarrow> nat" where
  "total_packed_before_A h = length (packed_images_before h) + length (packed_others_before h)"

text \<open>
  Lines 111-120: \<^verbatim>\<open>except RuntimeError\<close> prints a note and lets the run go on;
  \<^verbatim>\<open>except Exception\<close> is fatal. \<open>None\<close> means the run goes on to the export.
\<close>

definition unpack_handler_A :: "host \<Rightarrow> exn \<Rightarrow> outcome option \<times> event list" where
  "unpack_handler_A h e =
     (if is_RuntimeError e then (None, [Print (Note_unpack_reported e)])
      else (let (r, t) = fatal_A h e in (Some r, Print (Error_during_unpack e) # t)))"

text \<open>Lines 69-122.\<close>

definition unpack_stage_A :: "host \<Rightarrow> string \<Rightarrow> outcome option \<times> event list" where
  "unpack_stage_A h out_path =
     (if total_packed_before_A h > 0 then
        (let unpack_dir = join (dirname out_path) ''textures'';
             t0 = [Print (Attempting_unpack ''USE_CURRENT_DIR''), Call (Makedirs unpack_dir)]
         in case makedirs h of
              Some e \<Rightarrow> (let (r, t) = unpack_handler_A h e in (r, t0 @ t))
            | None \<Rightarrow>
                (let t1 = t0 @ [Print (Target_unpack_dir unpack_dir), Call (Unpack_all ''REMOVE'')]
                 in case unpack_all h of
                      Some e \<Rightarrow> (let (r, t) = unpack_handler_A h e in (r, t1 @ t))
                    | None \<Rightarrow>
                        (let (unpacked_count, still_packed, t) =
                               verify_unpacked (images_unpacked h) (packed_images_before h)
                         in (None,
                             t1 @ [Print Unpack_finished] @ t @
                             (if still_packed \<noteq> []
                              then Print (Warn_still_packed_count (length still_packed)) #
                                   map (\<lambda>item. Report (Still_packed_item item)) still_packed
                              else []) @
                             [Print (Successfully_unpacked unpacked_count)]))))
      else (None, [Print Nothing_to_unpack]))"

text \<open>Lines 126-160.\<close>

definition export_stage :: "host \<Rightarrow> string \<Rightarrow> outcome \<times> event list" where
  "export_stage h out_path =
     (let t0 = [Print (Exporting_to out_path), Call (Export_scene out_path)]
      in case export_fbx h of
           Some e \<Rightarrow> (let (r, t) = fatal_A h e in (r, t0 @ Print (Error_exporting e) # t))
         | None \<Rightarrow>
             (Returned,
              t0 @ [Print Exported_ok, Print Processing_finished] @
              (if headless h then [Call Quit_blender] else [])))"

text \<open>
  Lines 27-160, for an input path and the output path derived from it: the check for
  identical paths, the scene reset, the import, and the two stages above.
\<close>

definition process_fbx :: "host \<Rightarrow> string \<Rightarrow> string \<Rightarrow> outcome \<times> event list" where
  "process_fbx h in_path out_path =
     (if in_path = out_path then
        (if headless h then SystemExit (Some 1)
         else Raised (ValueError ''Input and output paths are identical.''),
         [Print Error_identical_paths, Print (Input_is in_path), Print (Output_is out_path)])
      else
        (let t0 = [Print (Processing_fbx in_path), Print (Outputting_to out_path)];
             (t1, r1) = run_ops [(Select_all, reset_ops h 0), (Delete_objects, reset_ops h 1),
                                 (Orphans_purge, reset_ops h 2)]
         in case r1 of
              Some e \<Rightarrow> (Raised e, t0 @ t1)
            | None \<Rightarrow>
                (case import_fbx h of
                   Some e \<Rightarrow>
                     (let (r, t) = fatal_A h e
                      in (r, t0 @ t1 @ [Call (Import_scene in_path), Print (Error_importing e)] @ t))
                 | None \<Rightarrow>
                     (let t2 = t0 @ t1 @
                               [Call (Import_scene in_path), Print Imported_ok,
                                Print (Found_packed (total_packed_before_A h)
                                         (length (packed_images_before h)))];
                          (stop, t3) = unpack_stage_A h out_path
                      in case stop of
                           Some r \<Rightarrow> (r, t2 @ t3)
                         | None \<Rightarrow> (let (r, t4) = export_stage h out_path in (r, t2 @ t3 @ t4))))))"

text \<open>Lines 6-160: the function as the script calls it.\<close>

definition remove_packed_textures :: "host \<Rightarrow> string \<Rightarrow> outcome \<times> event list" where
  "remove_packed_textures h in_path =
     (let name_ext = snd (splitext (basename in_path));
          (r, t) = process_fbx h in_path (fbx_out_path in_path)
      in (r, (if lower name_ext \<noteq> ''.fbx'' then [Print (Warn_no_fbx_extension (basename in_path))]
              else []) @ t))"

text \<open>
  The main block, lines 164-189: the arguments after \<^verbatim>\<open>--\<close>, the parser (whose
  \<^verbatim>\<open>SystemExit\<close> nothing catches), the check that the input is a file. A relative
  path names the file its absolute form names.
\<close>

definition script_args_A :: "string list \<Rightarrow> string list" where
  "script_args_A argv =
     (if ''--'' \<in> set argv then tl (dropWhile (\<lambda>a. a \<noteq> ''--'') argv) else [])"

definition main_A :: "host \<Rightarrow> string list \<Rightarrow> outcome \<times> event list" where
  "main_A h argv =
     (case parse_args h (script_args_A argv) of
        Parse_exit code \<Rightarrow> (SystemExit code, [])
      | Parsed input \<Rightarrow>
          if \<not> isfile (files_start h) (os_abspath h input)
          then (SystemExit (Some 1), [Print (Error_input_not_found input)])
          else remove_packed_textures h (os_abspath h input))"

section \<open>Variant B: textureUnpacker2.py\<close>

text \<open>
  Lines 54-67: the inventory, a dict from the name of each packed image to a presumed
  file name (the name itself when it contains a dot, the name with \<^verbatim>\<open>.png\<close> otherwise).
\<close>

definition packed_images_info :: "image list \<Rightarrow> (string \<times> string) list" where
  "packed_images_info imgs =
     map (\<lambda>n. (n, if CHR ''.'' \<in> set n then n else n @ ''.png''))
       (first_occurrences (map name (filter packed_file imgs)))"

text \<open>
  The variables of lines 103-110, with the filesystem and the lines printed so far.
  The two sets are lists without repetition.
\<close>

record scan_state =
  files :: filesys
  moved_count :: nat
  failed_to_move :: "string list"
  still_packed_after :: "string list"
  processed_packed_names :: "string list"
  possible_texture_dirs :: "string list"
  events :: "event list"

text \<open>
  Lines 118-165, the body of the \<^verbatim>\<open>try\<close> for one image that is unpacked to a file.
  The handler of line 163 is reached when \<^verbatim>\<open>os.path.samefile\<close> or
  \<^verbatim>\<open>shutil.move\<close> raises; \<^verbatim>\<open>img.reload()\<close> is taken to return.
\<close>

definition move_unpacked :: "host \<Rightarrow> string \<Rightarrow> image \<Rightarrow> scan_state \<Rightarrow> image \<times> scan_state" where
  "move_unpacked h input_dir img st =
     (let unpacked_abs_path = bpy_abspath h (filepath_raw img);
          unpacked_dir = dirname unpacked_abs_path;
          unpacked_filename = basename unpacked_abs_path;
          st1 = (if lower (basename unpacked_dir) = ''textures''
                 then st\<lparr>possible_texture_dirs :=
                          List.insert unpacked_dir (possible_texture_dirs st)\<rparr>
                 else st)
      in if \<not> path_exists (files st1) unpacked_abs_path then
           (img,
            st1\<lparr>events := events st1 @
                    [Report (Warn_source_missing (name img) unpacked_abs_path)],
                failed_to_move := failed_to_move st1 @ [name img @ '' (source file missing)'']\<rparr>)
         else
           (let target_path = join input_dir unpacked_filename
            in if path_exists (files st1) target_path then
                 (case samefile (files st1) unpacked_abs_path target_path of
                    Inl e \<Rightarrow>
                      (img,
                       st1\<lparr>events := events st1 @ [Report (Error_processing (name img) e)],
                           failed_to_move := failed_to_move st1 @
                             [name img @ '' (error: '' @ exn_str e @ '')'']\<rparr>)
                  | Inr same \<Rightarrow>
                      if same then
                        (img\<lparr>filepath := target_path\<rparr>,
                         st1\<lparr>events := events st1 @
                                 [Report (Info_already_at_target (name img) target_path),
                                  Call (Image_reload (name img))],
                             moved_count := Suc (moved_count st1)\<rparr>)
                      else
                        (img,
                         st1\<lparr>events := events st1 @
                                 [Report (Warn_target_exists (name img) target_path)],
                             failed_to_move := failed_to_move st1 @
                               [name img @ '' (target exists: '' @ unpacked_filename @ '')'']\<rparr>))
               else
                 (case move_error h unpacked_abs_path target_path of
                    Some e \<Rightarrow>
                      (img,
                       st1\<lparr>events := events st1 @
                               [Print (Moving unpacked_abs_path target_path),
                                Call (Shutil_move unpacked_abs_path target_path),
                                Report (Error_processing (name img) e)],
                           failed_to_move := failed_to_move st1 @
                             [name img @ '' (error: '' @ exn_str e @ '')'']\<rparr>)
                  | None \<Rightarrow>
                      (img\<lparr>filepath := target_path\<rparr>,
                       st1\<lparr>files := moved (files st1) unpacked_abs_path target_path,
                           events := events st1 @
                               [Print (Moving unpacked_abs_path target_path),
                                Call (Shutil_move unpacked_abs_path target_path),
                                Call (Image_reload (name img))],
                           moved_count := Suc (moved_count st1)\<rparr>))))"

text \<open>Lines 112-173, one turn of the loop over \<^verbatim>\<open>bpy.data.images\<close>.\<close>

definition process_image ::
  "host \<Rightarrow> string \<Rightarrow> (string \<times> string) list \<Rightarrow> image \<Rightarrow> scan_state \<Rightarrow> image \<times> scan_state" where
  "process_image h input_dir info img st =
     (if name img \<in> fst ` set info then
        (let st1 = st\<lparr>processed_packed_names :=
                        List.insert (name img) (processed_packed_names st)\<rparr>
         in if \<not> packed_file img \<and> source img = ''FILE'' \<and> filepath img \<noteq> [] then
              move_unpacked h input_dir img st1
            else if packed_file img then
              (img,
               st1\<lparr>events := events st1 @ [Report (Warn_still_packed (name img))],
                   still_packed_after := still_packed_after st1 @ [name img]\<rparr>)
            else
              (img,
               st1\<lparr>events := events st1 @
                       [Report (Warn_unexpected_state (name img) (source img) (filepath img))]\<rparr>))
      else (img, st))"

fun scan_images ::
  "host \<Rightarrow> string \<Rightarrow> (string \<times> string) list \<Rightarrow> image list \<Rightarrow> scan_state \<Rightarrow> image list \<times> scan_state" where
  "scan_images h input_dir info [] st = ([], st)"
| "scan_images h input_dir info (img # imgs) st =
     (let (img', st1) = process_image h input_dir info img st;
          (imgs', st2) = scan_images h input_dir info imgs st1
      in (img' # imgs', st2))"

text \<open>Lines 199-207, for one recorded folder and then for all of them.\<close>

definition cleanup_dir :: "host \<Rightarrow> string \<Rightarrow> filesys \<Rightarrow> filesys \<times> event list" where
  "cleanup_dir h tex_dir fs =
     (if path_exists fs tex_dir then
        (case listdir fs tex_dir of
           Inl e \<Rightarrow> (fs, [Report (Warn_could_not_remove tex_dir e)])
         | Inr [] \<Rightarrow>
             (case rmdir_error h tex_dir of
                Some e \<Rightarrow>
                  (fs, [Report (Attempting_remove_dir tex_dir), Call (Rmdir tex_dir),
                        Report (Warn_could_not_remove tex_dir e)])
              | None \<Rightarrow>
                  (removed fs tex_dir,
                   [Report (Attempting_remove_dir tex_dir), Call (Rmdir tex_dir)]))
         | Inr (entry # entries) \<Rightarrow> (fs, [Report (Note_dir_not_empty tex_dir)]))
      else (fs, []))"

fun cleanup_dirs :: "host \<Rightarrow> string list \<Rightarrow> filesys \<Rightarrow> filesys \<times> event list" where
  "cleanup_dirs h [] fs = (fs, [])"
| "cleanup_dirs h (tex_dir # dirs) fs =
     (let (fs1, t1) = cleanup_dir h tex_dir fs;
          (fs2, t2) = cleanup_dirs h dirs fs1
      in (fs2, t1 @ t2))"

text \<open>
  \<^verbatim>\<open>for tex_dir in possible_texture_dirs\<close> runs over a set: each recorded folder once,
  in the order the host's \<open>set_order\<close> gives. An answer that is not an arrangement of
  the set is not an iteration order; the recorded order stands in for it.
\<close>

definition iteration_order :: "host \<Rightarrow> string list \<Rightarrow> string list" where
  "iteration_order h xs =
     (let ys = set_order h xs in if distinct ys \<and> set ys = set xs then ys else xs)"

text \<open>
  Lines 108-207, run when \<^verbatim>\<open>total_packed_before > 0\<close>: the loop over the images, the
  names of the inventory that the loop never met, the summary, the folder cleanup.
\<close>

definition missing_after_unpack :: "(string \<times> string) list \<Rightarrow> scan_state \<Rightarrow> string list" where
  "missing_after_unpack info st =
     filter (\<lambda>n. n \<notin> set (processed_packed_names st)) (map fst info)"

definition scan_start :: "string \<Rightarrow> filesys \<Rightarrow> scan_state" where
  "scan_start input_dir fs =
     \<lparr>files = fs, moved_count = 0, failed_to_move = [], still_packed_after = [],
      processed_packed_names = [], possible_texture_dirs = [],
      events = [Print (Scanning_images input_dir)]\<rparr>"

definition reconcile ::
  "host \<Rightarrow> string \<Rightarrow> (string \<times> string) list \<Rightarrow> image list \<Rightarrow> filesys \<Rightarrow> image list \<times> scan_state" where
  "reconcile h input_dir info imgs fs =
     (let (imgs', st1) = scan_images h input_dir info imgs (scan_start input_dir fs);
          missing = missing_after_unpack info st1;
          t_missing = (if missing \<noteq> []
                       then Print (Warn_missing_count (length missing)) #
                            map (\<lambda>n. Report (Missing_item n)) missing
                       else []);
          t_summary =
            [Print (Finished_moving (moved_count st1) (length (failed_to_move st1))
                      (length (still_packed_after st1)))] @
            (if failed_to_move st1 \<noteq> []
             then Print Failures_header # map (\<lambda>item. Report (Failure_item item)) (failed_to_move st1)
             else []) @
            (if still_packed_after st1 \<noteq> []
             then Print Still_packed_header #
                  map (\<lambda>item. Report (Still_packed_item item)) (still_packed_after st1)
             else []);
          (fs', t_cleanup) =
            cleanup_dirs h (iteration_order h (possible_texture_dirs st1)) (files st1)
      in (imgs', st1\<lparr>files := fs', events := events st1 @ t_missing @ t_summary @ t_cleanup\<rparr>))"

text \<open>
  Lines 74-100. The result is the outcome when the run ends here, the count
  \<^verbatim>\<open>total_packed_before\<close> as the handlers leave it, whether the operator returned, and
  the lines printed.
\<close>

definition unpack_stage_B :: "host \<Rightarrow> nat \<Rightarrow> outcome option \<times> nat \<times> bool \<times> event list" where
  "unpack_stage_B h total_packed_before =
     (if total_packed_before > 0 then
        (let t0 = [Print (Attempting_unpack ''USE_LOCAL''), Call (Unpack_all ''USE_LOCAL'')]
         in case unpack_all h of
              None \<Rightarrow> (None, total_packed_before, True, t0 @ [Print Unpack_finished])
            | Some e \<Rightarrow>
                if is_RuntimeError e then
                  (if str_contains ''Nothing packed'' (exn_str e)
                   then (None, 0, False, t0 @ [Print (Note_unpack_reported e)])
                   else (Some (Raised e), total_packed_before, False,
                         t0 @ [Print (Note_unpack_reported e)]))
                else
                  (Some (if headless h then SystemExit (Some 1) else Raised e),
                   total_packed_before, False, t0 @ [Print (Error_during_unpack e)]))
      else (None, total_packed_before, False, [Print Nothing_to_unpack]))"

text \<open>What a run of variant B leaves: how it ended, its lines, the images, the files.\<close>

record run =
  ended :: outcome
  printed :: "event list"
  final_images :: "image list"
  final_files :: filesys

text \<open>Lines 211-223.\<close>

definition finish_B :: "host \<Rightarrow> string \<Rightarrow> nat \<Rightarrow> string list \<Rightarrow> event list" where
  "finish_B h input_dir moved_cnt failed =
     [Print Processing_finished,
      (if moved_cnt > 0 \<or> failed = [] then Print (Successfully_processed moved_cnt input_dir)
       else Print No_textures_moved)] @
     (if headless h then [Print Exiting_blender, Call Quit_blender] else [Print Script_finished])"

text \<open>Lines 9-223.\<close>

definition unpack_fbx_textures :: "host \<Rightarrow> string \<Rightarrow> run" where
  "unpack_fbx_textures h fbx_in_path =
     (let input_dir = dirname fbx_in_path;
          fs = files_start h
      in if \<not> isfile fs fbx_in_path then
           \<lparr>ended = (if headless h then SystemExit (Some 1)
                     else Raised (FileNotFoundError fbx_in_path)),
            printed = [Print (Error_input_not_found fbx_in_path)],
            final_images = [], final_files = fs\<rparr>
         else
           (let t0 = [Print (Processing_fbx fbx_in_path), Print (Target_directory input_dir)];
                (t1, r1) = run_ops [(Select_all, reset_ops h 0), (Delete_objects, reset_ops h 1),
                                    (Orphans_purge, reset_ops h 2), (Orphans_purge, reset_ops h 3),
                                    (Orphans_purge, reset_ops h 4)]
            in case r1 of
                 Some e \<Rightarrow>
                   \<lparr>ended = Raised e, printed = t0 @ t1, final_images = [], final_files = fs\<rparr>
               | None \<Rightarrow>
                   (case import_fbx h of
                      Some e \<Rightarrow>
                        \<lparr>ended = (if headless h then SystemExit (Some 1) else Raised e),
                         printed = t0 @ t1 @ [Call (Import_scene fbx_in_path), Print (Error_importing e)],
                         final_images = [], final_files = fs\<rparr>
                    | None \<Rightarrow>
                        (let info = packed_images_info (images_loaded h);
                             t2 = t0 @ t1 @
                                  [Call (Import_scene fbx_in_path), Print Imported_ok,
                                   Print (Found_packed (length info) (length info))];
                             (stop, total_packed_before, unpacked, t3) =
                               unpack_stage_B h (length info);
                             imgs = (if unpacked then images_unpacked h else images_loaded h);
                             fs1 = (if unpacked then files_unpacked h else fs)
                         in case stop of
                              Some r \<Rightarrow>
                                \<lparr>ended = r, printed = t2 @ t3, final_images = imgs,
                                 final_files = fs1\<rparr>
                            | None \<Rightarrow>
                                if total_packed_before > 0 then
                                  (let (imgs', st) = reconcile h input_dir info imgs fs1
                                   in \<lparr>ended = Returned,
                                       printed = t2 @ t3 @ events st @
                                         finish_B h input_dir (moved_count st) (failed_to_move st),
                                       final_images = imgs', final_files = files st\<rparr>)
                                else
                                  \<lparr>ended = Returned,
                                   printed = t2 @ t3 @ finish_B h input_dir 0 [],
                                   final_images = imgs, final_files = fs1\<rparr>))))"

text \<open>
  The main block, lines 228-303. Without \<^verbatim>\<open>--\<close> the arguments are those after the
  first argument that ends in \<^verbatim>\<open>.py\<close> and names this script. A \<^verbatim>\<open>SystemExit\<close> of
  the parser is caught: headless, the script exits with the parser's code, or with 1
  when the parser gave none; otherwise the \<^verbatim>\<open>SystemExit\<close> is raised again.
\<close>

definition script_args_B :: "string \<Rightarrow> string list \<Rightarrow> string list" where
  "script_args_B script_file argv =
     (if ''--'' \<in> set argv then tl (dropWhile (\<lambda>a. a \<noteq> ''--'') argv)
      else
        (case dropWhile (\<lambda>arg. \<not> (endswith arg ''.py'' \<and>
                                   lower (basename arg) = lower (basename script_file))) argv of
           [] \<Rightarrow> []
         | script # rest \<Rightarrow> rest))"

definition main_B :: "host \<Rightarrow> string \<Rightarrow> string list \<Rightarrow> run" where
  "main_B h script_file argv =
     (let script_args = script_args_B script_file argv;
          t0 = (if script_args = [] \<and> \<not> headless h then [Print Info_ui_without_args] else [])
      in case parse_args h script_args of
           Parse_exit code \<Rightarrow>
             if headless h then
               \<lparr>ended = SystemExit (Some (case code of None \<Rightarrow> 1 | Some c \<Rightarrow> c)),
                printed = t0 @ [Print (Arg_parsing_failed code), Print Exiting_on_arg_error],
                final_images = [], final_files = files_start h\<rparr>
             else
               \<lparr>ended = SystemExit code, printed = t0 @ [Print (Arg_parsing_failed code)],
                final_images = [], final_files = files_start h\<rparr>
         | Parsed input_path_raw \<Rightarrow>
             (let input_path_resolved =
                    (if \<not> isabs input_path_raw then join (os_getcwd h) input_path_raw
                     else input_path_raw);
                  t1 = (if \<not> isabs input_path_raw
                        then [Print (Relative_resolved input_path_raw input_path_resolved (os_getcwd h))]
                        else []);
                  input_path_abs = os_abspath h input_path_resolved
              in if \<not> isfile (files_start h) input_path_abs then
                   \<lparr>ended = (if headless h then SystemExit (Some 1)
                             else Raised (FileNotFoundError input_path_abs)),
                    printed = t0 @ t1 @ [Print (Error_input_not_found input_path_abs),
                                         Print (Original_input input_path_raw)],
                    final_images = [], final_files = files_start h\<rparr>
                 else
                   (let r = unpack_fbx_textures h input_path_abs
                    in r\<lparr>printed := t0 @ t1 @ printed r\<rparr>)))"

section \<open>Reading a run\<close>

text \<open>The host calls and the reports among the events of a run, in order.\<close>

fun calls :: "event list \<Rightarrow> host_call list" where
  "calls [] = []"
| "calls (Call c # t) = c # calls t"
| "calls (Report r # t) = calls t"
| "calls (Print m # t) = calls t"

fun reports :: "event list \<Rightarrow> report list" where
  "reports [] = []"
| "reports (Call c # t) = reports t"
| "reports (Report r # t) = r # reports t"
| "reports (Print m # t) = reports t"

fun is_unpack_call :: "host_call \<Rightarrow> bool" where
  "is_unpack_call (Unpack_all method) = True"
| "is_unpack_call c = False"

text \<open>
  The four classes of the reconciliation, and the class an event of variant B puts a
  name in: the lines and calls of the move step stand for unpacked-confirmed, the
  warnings of lines 169, 173 and 184 for the other three.
\<close>

datatype asset_class = Unpacked_confirmed | Still_packed | Anomalous | Missing

fun class_of_event :: "event \<Rightarrow> (string \<times> asset_class) option" where
  "class_of_event (Call (Image_reload n)) = Some (n, Unpacked_confirmed)"
| "class_of_event (Report (Warn_source_missing n path)) = Some (n, Unpacked_confirmed)"
| "class_of_event (Report (Info_already_at_target n path)) = Some (n, Unpacked_confirmed)"
| "class_of_event (Report (Warn_target_exists n path)) = Some (n, Unpacked_confirmed)"
| "class_of_event (Report (Error_processing n e)) = Some (n, Unpacked_confirmed)"
| "class_of_event (Report (Warn_still_packed n)) = Some (n, Still_packed)"
| "class_of_event (Report (Warn_unexpected_state n src path)) = Some (n, Anomalous)"
| "class_of_event (Report (Missing_item n)) = Some (n, Missing)"
| "class_of_event ev = None"

definition classes_of :: "event list \<Rightarrow> string \<Rightarrow> asset_class set" where
  "classes_of t n = set (map snd (filter (\<lambda>nc. fst nc = n) (List.map_filter class_of_event t)))"


text \<open>
  The state after the loop over the images (all moves made, the folders recorded), and
  the files at the moment the cleanup loop reaches folder \<open>d\<close> of its list.
\<close>

definition after_moves ::
  "host \<Rightarrow> string \<Rightarrow> (string \<times> string) list \<Rightarrow> image list \<Rightarrow> filesys \<Rightarrow> scan_state" where
  "after_moves h input_dir info imgs fs =
     snd (scan_images h input_dir info imgs (scan_start input_dir fs))"

definition files_at :: "host \<Rightarrow> string list \<Rightarrow> filesys \<Rightarrow> string \<Rightarrow> filesys" where
  "files_at h ds fs d = fst (cleanup_dirs h (takeWhile (\<lambda>x. x \<noteq> d) ds) fs)"


definition moves_done :: "host \<Rightarrow> string \<Rightarrow> scan_state" where
  "moves_done h p =
     after_moves h (dirname p) (packed_images_info (images_loaded h)) (images_unpacked h)
       (files_unpacked h)"

definition recorded_folders :: "host \<Rightarrow> string \<Rightarrow> string list" where
  "recorded_folders h p = iteration_order h (possible_texture_dirs (moves_done h p))"

definition files_when_reached :: "host \<Rightarrow> string \<Rightarrow> string \<Rightarrow> filesys" where
  "files_when_reached h p d = files_at h (recorded_folders h p) (files (moves_done h p)) d"

section \<open>Example hosts\<close>

text \<open>
  The parser of both scripts has the single required option \<^verbatim>\<open>-i/--input\<close>. On the
  argument lists of the examples below Python's \<^verbatim>\<open>argparse\<close> does this: the option
  followed by its value parses; \<^verbatim>\<open>-h\<close> prints the help and exits with code 0; an empty
  list lacks the required option, a usage error, for which \<^verbatim>\<open>ArgumentParser.error\<close>
  exits with code 2. Other argument lists are not used here.
\<close>

definition argparse_example :: "string list \<Rightarrow> parse_result" where
  "argparse_example args =
     (if args = [''-h''] \<or> args = [''--help''] then Parse_exit (Some 0)
      else case args of
             [opt, v] \<Rightarrow> if opt = ''-i'' \<or> opt = ''--input'' then Parsed v else Parse_exit (Some 2)
           | _ \<Rightarrow> Parse_exit (Some 2))"

definition example_image :: "string \<Rightarrow> bool \<Rightarrow> string \<Rightarrow> image" where
  "example_image n packed path =
     \<lparr>name = n, packed_file = packed, source = ''FILE'', filepath = path, filepath_raw = path\<rparr>"

text \<open>
  A headless host with \<^verbatim>\<open>/assets/model.fbx\<close> on disk: the import loads two packed
  images, and the unpack operator writes both under \<^verbatim>\<open>/tmp/textures\<close>.
\<close>

definition example_host :: host where
  "example_host =
     \<lparr>background = Some True,
      reset_ops = (\<lambda>k. None),
      import_fbx = None,
      images_loaded = [example_image ''img1.png'' True [], example_image ''img2.png'' True []],
      libraries_loaded = [],
      makedirs = None,
      unpack_all = None,
      images_unpacked = [example_image ''img1.png'' False ''/tmp/textures/img1.png'',
                         example_image ''img2.png'' False ''/tmp/textures/img2.png''],
      export_fbx = None,
      files_start = [(''/assets'', Dir 1), (''/assets/model.fbx'', File 2)],
      files_unpacked = [(''/assets'', Dir 1), (''/assets/model.fbx'', File 2),
                        (''/tmp/textures'', Dir 3), (''/tmp/textures/img1.png'', File 4),
                        (''/tmp/textures/img2.png'', File 5)],
      bpy_abspath = (\<lambda>p. p),
      move_error = (\<lambda>src dst. None),
      rmdir_error = (\<lambda>d. None),
      parse_args = argparse_example,
      os_abspath = (\<lambda>p. p),
      os_getcwd = ''/assets'',
      set_order = (\<lambda>xs. xs)\<rparr>"

text \<open>The same host when the imported model carries no packed image.\<close>

definition plain_host :: host where
  "plain_host =
     example_host\<lparr>images_loaded := [example_image ''img1.png'' False ''/assets/img1.png'']\<rparr>"



text \<open>
  The state of the scan when the target directory already holds both file names:
  \<^verbatim>\<open>/assets/img1.png\<close> is a hard link to the extracted file, \<^verbatim>\<open>/assets/img2.png\<close> a
  different file.
\<close>

definition collision_state :: scan_state where
  "collision_state = scan_start ''/assets''
             [(''/assets'', Dir 1), (''/assets/model.fbx'', File 2),
              (''/assets/img1.png'', File 4), (''/assets/img2.png'', File 9),
              (''/tmp/textures'', Dir 3), (''/tmp/textures/img1.png'', File 4),
              (''/tmp/textures/img2.png'', File 5)]"

text \<open>
  The files after an unpack when \<^verbatim>\<open>/assets/img2.png\<close> is already there as another
  file, and a host on which no folder can be removed.
\<close>

definition collision_files :: filesys where
  "collision_files = (''/assets/img2.png'', File 9) # files_unpacked example_host"

definition collision_host :: host where
  "collision_host = example_host\<lparr>files_unpacked := collision_files\<rparr>"

definition busy_host :: host where
  "busy_host = example_host\<lparr>rmdir_error := (\<lambda>d. Some (OSError ''busy''))\<rparr>"


definition nested_host :: host where
  "nested_host =
     example_host
       \<lparr>images_unpacked := [example_image ''img1.png'' False ''/tmp/t/textures/img1.png'',
                            example_image ''img2.png'' False
                              ''/tmp/t/textures/textures/img2.png''],
        files_unpacked := [(''/assets'', Dir 1), (''/assets/model.fbx'', File 2),
                           (''/tmp/t/textures'', Dir 3),
                           (''/tmp/t/textures/img1.png'', File 4),
                           (''/tmp/t/textures/textures'', Dir 5),
                           (''/tmp/t/textures/textures/img2.png'', File 6)]\<rparr>"


text \<open>The recorded folders: each once, each named \<^verbatim>\<open>textures\<close> up to letter case.\<close>

definition dirs_ok :: "string list \<Rightarrow> bool" where
  "dirs_ok ds = (distinct ds \<and> (\<forall>d \<in> set ds. lower (basename d) = ''textures''))"

section \<open>Properties of the path functions\<close>

lemma basename_no_sep: "CHR ''/'' \<notin> set (basename p)"
  unfolding basename_def set_rev
  by (metis (mono_tags, lifting) set_takeWhileD)

lemma basename_append_sep:
  assumes "CHR ''/'' \<notin> set f"
  shows "basename (d @ CHR ''/'' # f) = f"
  using assms by (simp add: basename_def takeWhile_append1 takeWhile_eq_all_conv[THEN iffD2] takeWhile_append)

lemma basename_no_sep_id: "CHR ''/'' \<notin> set f \<Longrightarrow> basename f = f"
proof -
  assume "CHR ''/'' \<notin> set f"
  then have "takeWhile (\<lambda>c. c \<noteq> CHR ''/'') (rev f) = rev f"
    by (intro takeWhile_eq_all_conv[THEN iffD2]) auto
  then show ?thesis by (simp only: basename_def rev_rev_ident)
qed

lemma take_rev_takeWhile:
  "c \<in> set p \<Longrightarrow> take (length p - length (takeWhile (\<lambda>x. x \<noteq> c) (rev p)) - 1) p @ c # rev (takeWhile (\<lambda>x. x \<noteq> c) (rev p)) = p"
proof -
  assume c: "c \<in> set p"
  let ?t = "takeWhile (\<lambda>x. x \<noteq> c) (rev p)"
  let ?d = "dropWhile (\<lambda>x. x \<noteq> c) (rev p)"
  have split: "rev p = ?t @ ?d" by simp
  have "?d \<noteq> []" using c by (simp add: dropWhile_eq_Nil_conv)
  moreover have "hd ?d = c" using c hd_dropWhile[of "\<lambda>x. x \<noteq> c" "rev p"] by (auto simp: dropWhile_eq_Nil_conv)
  ultimately obtain ds where d: "?d = c # ds" by (cases ?d) auto
  have p: "p = rev ds @ c # rev ?t"
  proof -
    have "rev (rev p) = rev (?t @ c # ds)" using split d by simp
    then show ?thesis by simp
  qed
  have len: "length p - length ?t - 1 = length ds"
  proof -
    have "length p = length (rev ds @ c # rev ?t)" using p by simp
    then show ?thesis by simp
  qed
  have "take (length ds) p = rev ds"
  proof -
    have "take (length ds) p = take (length ds) (rev ds @ c # rev ?t)" using p by simp
    then show ?thesis by simp
  qed
  then show ?thesis using len p by simp
qed

lemma splitext_append: "splitext p = (r, e) \<Longrightarrow> r @ e = p"
  using take_rev_takeWhile[of "CHR ''.''" p]
  by (auto simp: splitext_def Let_def split: if_splits)

lemma splitext_ext: "splitext p = (r, e) \<Longrightarrow> e = [] \<or> hd e = CHR ''.''"
  by (auto simp: splitext_def Let_def split: if_splits)


lemma basename_join:
  assumes "CHR ''/'' \<notin> set f"
  shows "basename (join d f) = f"
proof -
  have nohd: "\<not> (f \<noteq> [] \<and> hd f = CHR ''/'')" using assms by (cases f) auto
  show ?thesis
  proof (cases "d = [] \<or> last d = CHR ''/''")
    case False
    then have "join d f = d @ CHR ''/'' # f" using nohd by (simp add: join_def)
    then show ?thesis using assms by (simp add: basename_append_sep)
  next
    case True
    show ?thesis
    proof (cases "d = []")
      case True
      then have "join d f = f" using nohd by (simp add: join_def)
      then show ?thesis using assms by (simp add: basename_no_sep_id)
    next
      case False
      with True have l: "last d = CHR ''/''" by simp
      from False l have "d = butlast d @ [CHR ''/'']" by (metis append_butlast_last_id)
      moreover have "join d f = d @ f" using l nohd by (auto simp: join_def)
      ultimately have "join d f = butlast d @ CHR ''/'' # f" by (metis append.assoc append_Cons append_Nil)
      then show ?thesis using assms by (simp add: basename_append_sep)
    qed
  qed
qed

lemma splitext_root_subset: "splitext p = (r, e) \<Longrightarrow> set r \<subseteq> set p \<and> set e \<subseteq> set p"
  using splitext_append[of p r e] by auto

lemma output_ext_no_sep: "CHR ''/'' \<notin> set e \<Longrightarrow> CHR ''/'' \<notin> set (output_ext e)"
  by (simp add: output_ext_def)

lemma output_filename_no_sep: "CHR ''/'' \<notin> set (output_filename p)"
proof -
  obtain r e where s: "splitext (basename p) = (r, e)" by (cases "splitext (basename p)")
  from splitext_root_subset[OF s] basename_no_sep[of p]
  have "CHR ''/'' \<notin> set r" "CHR ''/'' \<notin> set e" by auto
  then show ?thesis using s by (simp add: output_filename_def output_ext_no_sep)
qed

lemma basename_fbx_out_path: "basename (fbx_out_path p) = output_filename p"
  by (simp add: fbx_out_path_def basename_join output_filename_no_sep)

lemma output_filename_neq_basename: "output_filename p \<noteq> basename p"
proof
  assume eq: "output_filename p = basename p"
  obtain r e where s: "splitext (basename p) = (r, e)" by (cases "splitext (basename p)")
  have b: "basename p = r @ e" using splitext_append[OF s] by simp
  have o: "output_filename p = r @ ''_noTextures'' @ output_ext e"
    using s by (simp add: output_filename_def)
  from eq b o have "''_noTextures'' @ output_ext e = e" by simp
  moreover have "e = [] \<or> hd e = CHR ''.''" using splitext_ext[OF s] .
  ultimately show False by (cases e) auto
qed

lemma dropWhile_rev_no_sep:
  assumes "CHR ''/'' \<notin> set f"
  shows "dropWhile (\<lambda>c. c \<noteq> CHR ''/'') (rev f @ ys) = dropWhile (\<lambda>c. c \<noteq> CHR ''/'') ys"
  by (rule dropWhile_append2) (use assms in auto)

lemma dirname_shape:
  "dirname p = [] \<or> dirname p = replicate (length (dirname p)) (CHR ''/'') \<or> last (dirname p) \<noteq> CHR ''/''"
proof -
  define head where "head = rev (dropWhile (\<lambda>c. c \<noteq> CHR ''/'') (rev p))"
  have dn: "dirname p = (if head \<noteq> [] \<and> head \<noteq> replicate (length head) (CHR ''/'')
         then rev (dropWhile (\<lambda>c. c = CHR ''/'') (rev head)) else head)"
    unfolding dirname_def head_def Let_def ..
  show ?thesis
  proof (cases "head \<noteq> [] \<and> head \<noteq> replicate (length head) (CHR ''/'')")
    case False
    then have "dirname p = head" using dn by presburger
    with False show ?thesis by auto
  next
    case True
    define d where "d = dropWhile (\<lambda>c. c = CHR ''/'') (rev head)"
    have d: "dirname p = rev d" using True dn d_def by presburger
    show ?thesis
    proof (cases "d = []")
      case True
      with d show ?thesis by simp
    next
      case False
      then have "hd d \<noteq> CHR ''/''" unfolding d_def using hd_dropWhile[of "\<lambda>c. c = CHR ''/''" "rev head"] by blast
      then have "last (rev d) \<noteq> CHR ''/''" using False by (simp add: last_rev)
      with d show ?thesis by simp
    qed
  qed
qed

lemma dirname_join:
  assumes f: "CHR ''/'' \<notin> set f"
    and d: "d = [] \<or> d = replicate (length d) (CHR ''/'') \<or> last d \<noteq> CHR ''/''"
  shows "dirname (join d f) = d"
proof -
  have nohd: "\<not> (f \<noteq> [] \<and> hd f = CHR ''/'')" using f by (cases f) auto
  consider (empty) "d = []" | (slashes) "d \<noteq> []" "d = replicate (length d) (CHR ''/'')"
    | (proper) "d \<noteq> []" "last d \<noteq> CHR ''/''" using d by blast
  then show ?thesis
  proof cases
    case empty
    then have j: "join d f = f" using nohd by (simp add: join_def)
    have "dropWhile (\<lambda>c. c \<noteq> CHR ''/'') (rev f) = []" using f by (auto simp: dropWhile_eq_Nil_conv)
    then show ?thesis using j empty by (simp add: dirname_def)
  next
    case slashes
    then have l: "last d = CHR ''/''" by (metis last_replicate length_0_conv)
    then have j: "join d f = d @ f" using nohd by (auto simp: join_def)
    have hdr: "hd (rev d) = CHR ''/''" using l slashes(1) by (simp add: hd_rev)
    have "dropWhile (\<lambda>c. c \<noteq> CHR ''/'') (rev d) = rev d"
      using hdr slashes(1) by (cases "rev d") auto
    then have "rev (dropWhile (\<lambda>c. c \<noteq> CHR ''/'') (rev (join d f))) = d"
      using j dropWhile_rev_no_sep[OF f, of "rev d"] by simp
    then show ?thesis using slashes by (simp add: dirname_def Let_def)
  next
    case proper
    then have j: "join d f = d @ CHR ''/'' # f" using nohd by (auto simp: join_def)
    have h: "rev (dropWhile (\<lambda>c. c \<noteq> CHR ''/'') (rev (join d f))) = d @ ''/''"
      using j dropWhile_rev_no_sep[OF f, of "CHR ''/'' # rev d"] by simp
    have ns: "d @ ''/'' \<noteq> replicate (length (d @ ''/'')) (CHR ''/'')"
    proof
      assume a: "d @ ''/'' = replicate (length (d @ ''/'')) (CHR ''/'')"
      have "last d \<in> set (d @ ''/'')" using proper(1) by simp
      then have "last d \<in> set (replicate (length (d @ ''/'')) (CHR ''/''))" using a by metis
      then show False using proper(2) by simp
    qed
    have "dropWhile (\<lambda>c. c = CHR ''/'') (rev d) = rev d"
      using proper by (cases "rev d") (auto simp: hd_rev[symmetric])
    then have "rev (dropWhile (\<lambda>c. c = CHR ''/'') (rev (d @ ''/''))) = d" by simp
    then show ?thesis using h ns by (simp add: dirname_def Let_def)
  qed
qed

lemma dirname_fbx_out_path: "dirname (fbx_out_path p) = dirname p"
  unfolding fbx_out_path_def
  by (rule dirname_join[OF output_filename_no_sep dirname_shape])

lemma fbx_out_path_neq: "fbx_out_path p \<noteq> p"
proof
  assume "fbx_out_path p = p"
  then have "basename (fbx_out_path p) = basename p" by simp
  then show False using basename_fbx_out_path output_filename_neq_basename by metis
qed

section \<open>Variant A: the derived output path\<close>

text \<open>
  Claim C7, as the code has it. The derived output path lies in the input's own
  directory, and its file name is the input's base name without its extension,
  followed by \<^verbatim>\<open>_noTextures\<close> and an extension: the input's own extension, letter
  case kept, when that is \<^verbatim>\<open>.fbx\<close> up to letter case, and the forced \<^verbatim>\<open>.fbx\<close> for
  every other input.
\<close>

theorem derived_output_path:
  "dirname (fbx_out_path p) = dirname p \<and>
   basename (fbx_out_path p) =
     fst (splitext (basename p)) @ ''_noTextures'' @
       (if lower (snd (splitext (basename p))) = ''.fbx'' then snd (splitext (basename p))
        else ''.fbx'') \<and>
   fbx_out_path p = join (dirname p) (basename (fbx_out_path p))"
proof -
  obtain r e where s: "splitext (basename p) = (r, e)" by (cases "splitext (basename p)")
  have f: "output_filename p =
      fst (splitext (basename p)) @ ''_noTextures'' @
       (if lower (snd (splitext (basename p))) = ''.fbx'' then snd (splitext (basename p))
        else ''.fbx'')"
    using s by (simp add: output_filename_def output_ext_def)
  have b: "basename (fbx_out_path p) = output_filename p" by (rule basename_fbx_out_path)
  have j: "fbx_out_path p = join (dirname p) (basename (fbx_out_path p))"
    unfolding b by (simp add: fbx_out_path_def)
  have bf: "basename (fbx_out_path p) =
      fst (splitext (basename p)) @ ''_noTextures'' @
       (if lower (snd (splitext (basename p))) = ''.fbx'' then snd (splitext (basename p))
        else ''.fbx'')"
    using b f by (rule trans)
  show ?thesis
    by (intro conjI) (rule dirname_fbx_out_path, rule bf, rule j)
qed

text \<open>
  Claim C7 as stated fails: an input whose extension is \<^verbatim>\<open>.FBX\<close> keeps that spelling,
  so the output is not the base name plus \<^verbatim>\<open>_noTextures\<close> plus \<^verbatim>\<open>.fbx\<close>.
\<close>

theorem derived_output_keeps_extension_case:
  "fbx_out_path ''/assets/M.FBX'' = ''/assets/M_noTextures.FBX'' \<and>
   fbx_out_path ''/assets/M.FBX'' \<noteq>
     join (dirname ''/assets/M.FBX'')
       (fst (splitext (basename ''/assets/M.FBX'')) @ ''_noTextures'' @ ''.fbx'')"
  by (simp add: fbx_out_path_def output_filename_def output_ext_def join_def dirname_def
      basename_def splitext_def lower_def lower_char_def)

text \<open>
  Claim C10. For every input path the derived output path differs from it: the file
  names already differ, whatever the extension, so the check for identical paths never
  fires.
\<close>

theorem output_differs_from_input: "fbx_out_path p \<noteq> p"
  by (rule fbx_out_path_neq)

section \<open>Reading a run: basic facts\<close>

lemma calls_append [simp]: "calls (a @ b) = calls a @ calls b"
  by (induction a rule: calls.induct) auto

lemma reports_append [simp]: "reports (a @ b) = reports a @ reports b"
  by (induction a rule: reports.induct) auto

lemma headless_example: "headless example_host"
  by (simp add: headless_def example_host_def)

section \<open>Both variants: a failing argument parser\<close>

text \<open>
  Claim C9, as the code has it. When the parser leaves through \<^verbatim>\<open>SystemExit\<close> with
  some code, variant A ends with that very \<^verbatim>\<open>SystemExit\<close>, having printed and called
  nothing; headless variant B exits with the parser's code, and with 1 only when the
  parser gave no code, without any call into the host.
\<close>

theorem parse_failure_exit_status:
  "(parse_args h (script_args_A argv) = Parse_exit code \<longrightarrow>
      main_A h argv = (SystemExit code, [])) \<and>
   (parse_args h (script_args_B script_file argv) = Parse_exit code \<and> headless h \<longrightarrow>
      ended (main_B h script_file argv) =
        SystemExit (Some (case code of None \<Rightarrow> 1 | Some c \<Rightarrow> c)) \<and>
      calls (printed (main_B h script_file argv)) = [])"
  by (simp add: main_A_def main_B_def Let_def)

theorem parse_failure_exit_status_witness:
  "parse_args example_host (script_args_A [''blender'', ''-b'', ''-P'', ''script.py'', ''--'']) =
     Parse_exit (Some 2) \<and>
   main_A example_host [''blender'', ''-b'', ''-P'', ''script.py'', ''--''] =
     (SystemExit (Some 2), []) \<and>
   parse_args example_host
     (script_args_B ''script.py'' [''blender'', ''-b'', ''-P'', ''script.py'', ''--'']) =
     Parse_exit (Some 2) \<and>
   headless example_host \<and>
   ended (main_B example_host ''script.py'' [''blender'', ''-b'', ''-P'', ''script.py'', ''--'']) =
     SystemExit (Some 2)"
proof -
  have a: "parse_args example_host
      (script_args_A [''blender'', ''-b'', ''-P'', ''script.py'', ''--'']) = Parse_exit (Some 2)"
    by (simp add: example_host_def script_args_A_def argparse_example_def)
  have b: "parse_args example_host
      (script_args_B ''script.py'' [''blender'', ''-b'', ''-P'', ''script.py'', ''--'']) =
      Parse_exit (Some 2)"
    by (simp add: example_host_def script_args_B_def argparse_example_def)
  show ?thesis
    using a b headless_example
      parse_failure_exit_status[of example_host
        "[''blender'', ''-b'', ''-P'', ''script.py'', ''--'']" "Some 2" "''script.py''"]
    by simp
qed

text \<open>
  Claim C9 as stated fails: started headless without \<^verbatim>\<open>-i\<close>, both scripts end with
  exit code 2, the code of the parser's usage error, not with exit code 1.
\<close>

theorem parse_failure_exits_with_2:
  "fst (main_A example_host [''blender'', ''-b'', ''-P'', ''script.py'', ''--'']) =
     SystemExit (Some 2) \<and>
   ended (main_B example_host ''script.py'' [''blender'', ''-b'', ''-P'', ''script.py'', ''--'']) =
     SystemExit (Some 2) \<and>
   SystemExit (Some 2) \<noteq> SystemExit (Some 1)"
  by (simp add: main_A_def main_B_def Let_def example_host_def script_args_A_def
      script_args_B_def argparse_example_def headless_def)

section \<open>Both variants: nothing packed\<close>

lemma run_ops_trace:
  "reports (fst (run_ops ops)) = [] \<and> set (calls (fst (run_ops ops))) \<subseteq> fst ` set ops"
proof (induction ops)
  case Nil
  then show ?case by simp
next
  case (Cons a ops)
  obtain c r where a: "a = (c, r)" by (cases a)
  obtain t x where rest: "run_ops ops = (t, x)" by (cases "run_ops ops")
  show ?case using Cons a rest by (cases r) auto
qed

lemma reset_A_trace:
  assumes "run_ops [(Select_all, a), (Delete_objects, b), (Orphans_purge, c)] = (t, r)"
  shows "reports t = [] \<and> filter is_unpack_call (calls t) = []"
proof -
  from run_ops_trace[of "[(Select_all, a), (Delete_objects, b), (Orphans_purge, c)]"] assms
  have r: "reports t = []" and s: "set (calls t) \<subseteq> {Select_all, Delete_objects, Orphans_purge}"
    by auto
  have "\<forall>x \<in> set (calls t). \<not> is_unpack_call x" using s by auto
  then show ?thesis using r by (simp add: filter_empty_conv)
qed

lemma reset_B_trace:
  assumes "run_ops [(Select_all, a), (Delete_objects, b), (Orphans_purge, c),
                    (Orphans_purge, d), (Orphans_purge, e)] = (t, r)"
  shows "reports t = [] \<and> filter is_unpack_call (calls t) = []"
proof -
  from run_ops_trace[of "[(Select_all, a), (Delete_objects, b), (Orphans_purge, c),
                    (Orphans_purge, d), (Orphans_purge, e)]"] assms
  have r: "reports t = []" and s: "set (calls t) \<subseteq> {Select_all, Delete_objects, Orphans_purge}"
    by auto
  have "\<forall>x \<in> set (calls t). \<not> is_unpack_call x" using s by auto
  then show ?thesis using r by (simp add: filter_empty_conv)
qed

lemma first_occurrences_Nil [simp]: "first_occurrences [] = []"
  by (simp add: first_occurrences_def)

lemma fatal_A_trace: "reports (snd (fatal_A h e)) = [] \<and> filter is_unpack_call (calls (snd (fatal_A h e))) = []"
  by (simp add: fatal_A_def)

lemma export_stage_trace:
  "reports (snd (export_stage h out)) = [] \<and> filter is_unpack_call (calls (snd (export_stage h out))) = []"
  by (simp add: export_stage_def fatal_A_def Let_def split: option.splits)

lemma finish_B_trace:
  "reports (finish_B h d m f) = [] \<and> filter is_unpack_call (calls (finish_B h d m f)) = []"
  by (simp add: finish_B_def)

lemma process_fbx_nothing_packed:
  assumes "total_packed_before_A h = 0"
  shows "reports (snd (process_fbx h p out)) = [] \<and>
         filter is_unpack_call (calls (snd (process_fbx h p out))) = []"
proof (cases "p = out")
  case True
  then show ?thesis by (simp add: process_fbx_def)
next
  case False
  obtain t1 r1 where ops: "run_ops [(Select_all, reset_ops h 0), (Delete_objects, reset_ops h 1),
                                 (Orphans_purge, reset_ops h 2)] = (t1, r1)"
    by (cases "run_ops [(Select_all, reset_ops h 0), (Delete_objects, reset_ops h 1),
                                 (Orphans_purge, reset_ops h 2)]")
  note t1 = reset_A_trace[OF ops]
  have st: "unpack_stage_A h out = (None, [Print Nothing_to_unpack])"
    using assms by (simp add: unpack_stage_A_def)
  obtain r4 t4 where ex: "export_stage h out = (r4, t4)" by (cases "export_stage h out")
  have t4: "reports t4 = [] \<and> filter is_unpack_call (calls t4) = []"
    using export_stage_trace[of h out] ex by simp
  show ?thesis
    using False ops t1 st ex t4
    by (simp add: process_fbx_def fatal_A_def Let_def del: run_ops.simps split: option.splits)
qed

text \<open>
  Claim C5. When the scan after the import finds no packed image (and, in variant A,
  no packed library), the run never calls the unpack operator and prints no per-asset
  report at all: no still-packed, missing, anomalous or failed-to-move line. This holds
  however the other steps of the run end.
\<close>

theorem nothing_packed_nothing_unpacked:
  assumes "filter packed_file (images_loaded h) = []"
  shows "(filter lib_packed_file (libraries_loaded h) = [] \<longrightarrow>
            filter is_unpack_call (calls (snd (remove_packed_textures h p))) = [] \<and>
            reports (snd (remove_packed_textures h p)) = []) \<and>
         filter is_unpack_call (calls (printed (unpack_fbx_textures h p))) = [] \<and>
         reports (printed (unpack_fbx_textures h p)) = []"
proof -
  have A: "filter is_unpack_call (calls (snd (remove_packed_textures h p))) = [] \<and>
            reports (snd (remove_packed_textures h p)) = []"
    if libs: "filter lib_packed_file (libraries_loaded h) = []"
  proof -
    have "total_packed_before_A h = 0"
      using assms libs
      by (simp add: total_packed_before_A_def packed_images_before_def packed_others_before_def)
    from process_fbx_nothing_packed[OF this, of p "fbx_out_path p"]
    show ?thesis
      by (cases "process_fbx h p (fbx_out_path p)") (simp add: remove_packed_textures_def Let_def)
  qed
  have info: "packed_images_info (images_loaded h) = []"
    using assms by (simp add: packed_images_info_def)
  obtain t1 r1 where ops: "run_ops [(Select_all, reset_ops h 0), (Delete_objects, reset_ops h 1),
                                    (Orphans_purge, reset_ops h 2), (Orphans_purge, reset_ops h 3),
                                    (Orphans_purge, reset_ops h 4)] = (t1, r1)"
    by (cases "run_ops [(Select_all, reset_ops h 0), (Delete_objects, reset_ops h 1),
                                    (Orphans_purge, reset_ops h 2), (Orphans_purge, reset_ops h 3),
                                    (Orphans_purge, reset_ops h 4)]")
  note t1 = reset_B_trace[OF ops]
  have st: "unpack_stage_B h 0 = (None, 0, False, [Print Nothing_to_unpack])"
    by (simp add: unpack_stage_B_def)
  have B: "filter is_unpack_call (calls (printed (unpack_fbx_textures h p))) = [] \<and>
         reports (printed (unpack_fbx_textures h p)) = []"
    using info ops t1 st finish_B_trace[of h "dirname p" 0 "[]"]
    by (simp add: unpack_fbx_textures_def Let_def del: run_ops.simps split: option.splits)
  show ?thesis using A B by blast
qed

theorem nothing_packed_nothing_unpacked_witness:
  "filter packed_file (images_loaded plain_host) = [] \<and>
   filter lib_packed_file (libraries_loaded plain_host) = [] \<and>
   filter is_unpack_call (calls (snd (remove_packed_textures plain_host ''/assets/model.fbx''))) = [] \<and>
   reports (snd (remove_packed_textures plain_host ''/assets/model.fbx'')) = [] \<and>
   filter is_unpack_call (calls (printed (unpack_fbx_textures plain_host ''/assets/model.fbx''))) = [] \<and>
   reports (printed (unpack_fbx_textures plain_host ''/assets/model.fbx'')) = []"
proof -
  have a: "filter packed_file (images_loaded plain_host) = []"
    by (simp add: plain_host_def example_host_def example_image_def)
  have b: "filter lib_packed_file (libraries_loaded plain_host) = []"
    by (simp add: plain_host_def example_host_def)
  show ?thesis
    using a b nothing_packed_nothing_unpacked[OF a, of "''/assets/model.fbx''"] by blast
qed

section \<open>Both variants: a failing unpack operator\<close>

lemma first_occurrences_set [simp]: "set (first_occurrences xs) = set xs"
  by (simp add: first_occurrences_def)

lemma first_occurrences_empty [simp]: "(first_occurrences xs = []) = (xs = [])"
  by (metis first_occurrences_set set_empty)

lemma packed_images_positive:
  "filter packed_file (images_loaded h) \<noteq> [] \<Longrightarrow> total_packed_before_A h > 0"
  by (simp add: total_packed_before_A_def packed_images_before_def)

lemma packed_info_positive:
  "filter packed_file (images_loaded h) \<noteq> [] \<Longrightarrow> length (packed_images_info (images_loaded h)) > 0"
  by (simp add: packed_images_info_def)

lemma run_A_at_failing_unpack:
  assumes reset: "\<forall>k. reset_ops h k = None" and imp: "import_fbx h = None"
    and mk: "makedirs h = None" and packed: "filter packed_file (images_loaded h) \<noteq> []"
    and un: "unpack_all h = Some e"
  shows "is_RuntimeError e \<Longrightarrow>
           fst (remove_packed_textures h p) = fst (export_stage h (fbx_out_path p)) \<and>
           Print (Note_unpack_reported e) \<in> set (snd (remove_packed_textures h p)) \<and>
           Export_scene (fbx_out_path p) \<in> set (calls (snd (remove_packed_textures h p)))"
    and "\<not> is_RuntimeError e \<Longrightarrow>
           fst (remove_packed_textures h p) = (if headless h then SystemExit (Some 1) else Raised e) \<and>
           Export_scene (fbx_out_path p) \<notin> set (calls (snd (remove_packed_textures h p)))"
proof -
  have ne: "p \<noteq> fbx_out_path p" using fbx_out_path_neq[of p] by simp
  have tot: "total_packed_before_A h > 0" using packed by (rule packed_images_positive)
  have ex: "Export_scene (fbx_out_path p) \<in> set (calls (snd (export_stage h (fbx_out_path p))))"
    by (simp add: export_stage_def fatal_A_def Let_def split: option.splits)
  {
    assume rt: "is_RuntimeError e"
    have st: "unpack_stage_A h (fbx_out_path p) =
        (None, [Print (Attempting_unpack ''USE_CURRENT_DIR''),
                Call (Makedirs (join (dirname (fbx_out_path p)) ''textures'')),
                Print (Target_unpack_dir (join (dirname (fbx_out_path p)) ''textures'')),
                Call (Unpack_all ''REMOVE''), Print (Note_unpack_reported e)])"
      using tot mk un rt by (simp add: unpack_stage_A_def unpack_handler_A_def Let_def)
    show "fst (remove_packed_textures h p) = fst (export_stage h (fbx_out_path p)) \<and>
           Print (Note_unpack_reported e) \<in> set (snd (remove_packed_textures h p)) \<and>
           Export_scene (fbx_out_path p) \<in> set (calls (snd (remove_packed_textures h p)))"
      using ne reset imp st ex
      by (cases "export_stage h (fbx_out_path p)")
         (simp add: remove_packed_textures_def process_fbx_def Let_def)
  }
  {
    assume nrt: "\<not> is_RuntimeError e"
    have st: "unpack_stage_A h (fbx_out_path p) =
        (Some (if headless h then SystemExit (Some 1) else Raised e),
         [Print (Attempting_unpack ''USE_CURRENT_DIR''),
                Call (Makedirs (join (dirname (fbx_out_path p)) ''textures'')),
                Print (Target_unpack_dir (join (dirname (fbx_out_path p)) ''textures'')),
                Call (Unpack_all ''REMOVE''), Print (Error_during_unpack e)] @
         (if headless h then [Call Quit_blender] else []))"
      using tot mk un nrt by (simp add: unpack_stage_A_def unpack_handler_A_def fatal_A_def Let_def)
    show "fst (remove_packed_textures h p) = (if headless h then SystemExit (Some 1) else Raised e) \<and>
           Export_scene (fbx_out_path p) \<notin> set (calls (snd (remove_packed_textures h p)))"
      using ne reset imp st
      by (simp add: remove_packed_textures_def process_fbx_def Let_def)
  }
qed

lemma run_B_at_failing_unpack:
  assumes reset: "\<forall>k. reset_ops h k = None" and imp: "import_fbx h = None"
    and packed: "filter packed_file (images_loaded h) \<noteq> []"
    and inp: "isfile (files_start h) p"
    and un: "unpack_all h = Some e"
  shows "is_RuntimeError e \<Longrightarrow> str_contains ''Nothing packed'' (exn_str e) \<Longrightarrow>
           ended (unpack_fbx_textures h p) = Returned \<and>
           Print (Note_unpack_reported e) \<in> set (printed (unpack_fbx_textures h p)) \<and>
           reports (printed (unpack_fbx_textures h p)) = [] \<and>
           final_files (unpack_fbx_textures h p) = files_start h"
    and "\<not> is_RuntimeError e \<Longrightarrow>
           ended (unpack_fbx_textures h p) = (if headless h then SystemExit (Some 1) else Raised e)"
    and "is_RuntimeError e \<Longrightarrow> \<not> str_contains ''Nothing packed'' (exn_str e) \<Longrightarrow> \<not> headless h \<Longrightarrow>
           ended (unpack_fbx_textures h p) = Raised e"
proof -
  have tot: "length (packed_images_info (images_loaded h)) > 0"
    using packed by (rule packed_info_positive)
  {
    assume rt: "is_RuntimeError e" and np: "str_contains ''Nothing packed'' (exn_str e)"
    have st: "unpack_stage_B h (length (packed_images_info (images_loaded h))) =
        (None, 0, False, [Print (Attempting_unpack ''USE_LOCAL''), Call (Unpack_all ''USE_LOCAL''),
                          Print (Note_unpack_reported e)])"
      using tot un rt np by (simp add: unpack_stage_B_def Let_def)
    show "ended (unpack_fbx_textures h p) = Returned \<and>
           Print (Note_unpack_reported e) \<in> set (printed (unpack_fbx_textures h p)) \<and>
           reports (printed (unpack_fbx_textures h p)) = [] \<and>
           final_files (unpack_fbx_textures h p) = files_start h"
      using reset imp inp st
      by (simp add: unpack_fbx_textures_def finish_B_def Let_def)
  }
  {
    assume nrt: "\<not> is_RuntimeError e"
    have st: "unpack_stage_B h (length (packed_images_info (images_loaded h))) =
        (Some (if headless h then SystemExit (Some 1) else Raised e),
         length (packed_images_info (images_loaded h)), False,
         [Print (Attempting_unpack ''USE_LOCAL''), Call (Unpack_all ''USE_LOCAL''),
                          Print (Error_during_unpack e)])"
      using tot un nrt by (simp add: unpack_stage_B_def Let_def)
    show "ended (unpack_fbx_textures h p) = (if headless h then SystemExit (Some 1) else Raised e)"
      using reset imp inp st
      by (simp add: unpack_fbx_textures_def Let_def)
  }
  {
    assume rt: "is_RuntimeError e" and np: "\<not> str_contains ''Nothing packed'' (exn_str e)"
    have st: "unpack_stage_B h (length (packed_images_info (images_loaded h))) =
        (Some (Raised e), length (packed_images_info (images_loaded h)), False,
         [Print (Attempting_unpack ''USE_LOCAL''), Call (Unpack_all ''USE_LOCAL''),
                          Print (Note_unpack_reported e)])"
      using tot un rt np by (simp add: unpack_stage_B_def Let_def)
    show "ended (unpack_fbx_textures h p) = Raised e"
      using reset imp inp st
      by (simp add: unpack_fbx_textures_def Let_def)
  }
qed

lemma example_host_reaches_unpack:
  "(\<forall>k. reset_ops (example_host\<lparr>background := b, unpack_all := u\<rparr>) k = None) \<and>
   import_fbx (example_host\<lparr>background := b, unpack_all := u\<rparr>) = None \<and>
   makedirs (example_host\<lparr>background := b, unpack_all := u\<rparr>) = None \<and>
   filter packed_file (images_loaded (example_host\<lparr>background := b, unpack_all := u\<rparr>)) \<noteq> [] \<and>
   isfile (files_start (example_host\<lparr>background := b, unpack_all := u\<rparr>)) ''/assets/model.fbx'' \<and>
   unpack_all (example_host\<lparr>background := b, unpack_all := u\<rparr>) = u"
  by (simp add: example_host_def example_image_def isfile_def)

text \<open>
  Claim C4, as the code has it. The run has reached the unpack step and the operator
  raises \<open>e\<close>. Variant A: any \<^verbatim>\<open>RuntimeError\<close> is noted and the run goes on to the
  export, whose outcome is the run's; any other exception is fatal, exit code 1 when
  headless and the exception itself otherwise, with no export. Variant B: a
  \<^verbatim>\<open>RuntimeError\<close> whose text contains \<^verbatim>\<open>Nothing packed\<close> is noted and the run returns
  without a report and without touching a file; an exception that is no
  \<^verbatim>\<open>RuntimeError\<close> is fatal in the same two ways; another \<^verbatim>\<open>RuntimeError\<close> reaches
  the interactive user.
\<close>

theorem unpack_operator_errors:
  assumes reset: "\<forall>k. reset_ops h k = None" and imp: "import_fbx h = None"
    and mk: "makedirs h = None" and packed: "filter packed_file (images_loaded h) \<noteq> []"
    and inp: "isfile (files_start h) p"
    and un: "unpack_all h = Some e"
  shows "(is_RuntimeError e \<longrightarrow>
            fst (remove_packed_textures h p) = fst (export_stage h (fbx_out_path p)) \<and>
            Print (Note_unpack_reported e) \<in> set (snd (remove_packed_textures h p)) \<and>
            Export_scene (fbx_out_path p) \<in> set (calls (snd (remove_packed_textures h p)))) \<and>
         (\<not> is_RuntimeError e \<longrightarrow>
            fst (remove_packed_textures h p) =
              (if headless h then SystemExit (Some 1) else Raised e) \<and>
            Export_scene (fbx_out_path p) \<notin> set (calls (snd (remove_packed_textures h p)))) \<and>
         (is_RuntimeError e \<and> str_contains ''Nothing packed'' (exn_str e) \<longrightarrow>
            ended (unpack_fbx_textures h p) = Returned \<and>
            Print (Note_unpack_reported e) \<in> set (printed (unpack_fbx_textures h p)) \<and>
            reports (printed (unpack_fbx_textures h p)) = [] \<and>
            final_files (unpack_fbx_textures h p) = files_start h) \<and>
         (\<not> is_RuntimeError e \<longrightarrow>
            ended (unpack_fbx_textures h p) =
              (if headless h then SystemExit (Some 1) else Raised e)) \<and>
         (is_RuntimeError e \<and> \<not> str_contains ''Nothing packed'' (exn_str e) \<and> \<not> headless h \<longrightarrow>
            ended (unpack_fbx_textures h p) = Raised e)"
  using run_A_at_failing_unpack[OF reset imp mk packed un, of p]
        run_B_at_failing_unpack[OF reset imp packed inp un]
  by blast

theorem unpack_operator_errors_witness:
  "fst (remove_packed_textures
          (example_host\<lparr>background := Some True, unpack_all := Some (RuntimeError ''Error: Nothing packed'')\<rparr>)
          ''/assets/model.fbx'') = Returned \<and>
   ended (unpack_fbx_textures
          (example_host\<lparr>background := Some True, unpack_all := Some (RuntimeError ''Error: Nothing packed'')\<rparr>)
          ''/assets/model.fbx'') = Returned \<and>
   fst (remove_packed_textures
          (example_host\<lparr>background := Some True, unpack_all := Some (OtherException ''boom'')\<rparr>)
          ''/assets/model.fbx'') = SystemExit (Some 1) \<and>
   ended (unpack_fbx_textures
          (example_host\<lparr>background := Some True, unpack_all := Some (OtherException ''boom'')\<rparr>)
          ''/assets/model.fbx'') = SystemExit (Some 1) \<and>
   ended (unpack_fbx_textures
          (example_host\<lparr>background := Some False, unpack_all := Some (RuntimeError ''Disk full'')\<rparr>)
          ''/assets/model.fbx'') = Raised (RuntimeError ''Disk full'')"
proof -
  let ?h1 = "example_host\<lparr>background := Some True, unpack_all := Some (RuntimeError ''Error: Nothing packed'')\<rparr>"
  let ?h2 = "example_host\<lparr>background := Some True, unpack_all := Some (OtherException ''boom'')\<rparr>"
  let ?h3 = "example_host\<lparr>background := Some False, unpack_all := Some (RuntimeError ''Disk full'')\<rparr>"
  note r1 = example_host_reaches_unpack[where b="Some True" and u="Some (RuntimeError ''Error: Nothing packed'')"]
  note r2 = example_host_reaches_unpack[where b="Some True" and u="Some (OtherException ''boom'')"]
  note r3 = example_host_reaches_unpack[where b="Some False" and u="Some (RuntimeError ''Disk full'')"]
  have c1: "is_RuntimeError (RuntimeError ''Error: Nothing packed'') \<and>
            str_contains ''Nothing packed'' (exn_str (RuntimeError ''Error: Nothing packed''))"
    by simp
  have c2: "\<not> is_RuntimeError (OtherException ''boom'')" by simp
  have c3: "is_RuntimeError (RuntimeError ''Disk full'') \<and>
            \<not> str_contains ''Nothing packed'' (exn_str (RuntimeError ''Disk full'')) \<and>
            \<not> headless ?h3"
    by (simp add: headless_def)
  have ex: "fst (export_stage ?h1 (fbx_out_path ''/assets/model.fbx'')) = Returned"
    by (simp add: export_stage_def example_host_def)
  have hl: "headless ?h2" by (simp add: headless_def)
  from unpack_operator_errors[of ?h1 "''/assets/model.fbx''" "RuntimeError ''Error: Nothing packed''"] r1 c1 ex
  have w1: "fst (remove_packed_textures ?h1 ''/assets/model.fbx'') = Returned \<and>
            ended (unpack_fbx_textures ?h1 ''/assets/model.fbx'') = Returned"
    by presburger
  from unpack_operator_errors[of ?h2 "''/assets/model.fbx''" "OtherException ''boom''"] r2 c2 hl
  have w2: "fst (remove_packed_textures ?h2 ''/assets/model.fbx'') = SystemExit (Some 1) \<and>
            ended (unpack_fbx_textures ?h2 ''/assets/model.fbx'') = SystemExit (Some 1)"
    by presburger
  from unpack_operator_errors[of ?h3 "''/assets/model.fbx''" "RuntimeError ''Disk full''"] r3 c3
  have w3: "ended (unpack_fbx_textures ?h3 ''/assets/model.fbx'') = Raised (RuntimeError ''Disk full'')"
    by presburger
  show ?thesis using w1 w2 w3 by blast
qed

text \<open>
  Claim C4 as stated fails in variant A: the operator raises a \<^verbatim>\<open>RuntimeError\<close> that
  does not say "nothing packed", the host is headless, and the run still goes on to
  the export and returns.
\<close>

theorem runtime_error_is_benign_in_variant_A:
  "unpack_all (example_host\<lparr>unpack_all := Some (RuntimeError ''Disk full'')\<rparr>) =
     Some (RuntimeError ''Disk full'') \<and>
   \<not> str_contains ''Nothing packed'' ''Disk full'' \<and>
   headless (example_host\<lparr>unpack_all := Some (RuntimeError ''Disk full'')\<rparr>) \<and>
   fst (remove_packed_textures (example_host\<lparr>unpack_all := Some (RuntimeError ''Disk full'')\<rparr>)
          ''/assets/model.fbx'') = Returned \<and>
   Export_scene ''/assets/model_noTextures.fbx'' \<in>
     set (calls (snd (remove_packed_textures
                        (example_host\<lparr>unpack_all := Some (RuntimeError ''Disk full'')\<rparr>)
                        ''/assets/model.fbx'')))"
  by (simp add: remove_packed_textures_def process_fbx_def unpack_stage_A_def
      unpack_handler_A_def export_stage_def total_packed_before_A_def packed_images_before_def
      packed_others_before_def first_occurrences_def example_host_def example_image_def
      headless_def fbx_out_path_def output_filename_def output_ext_def join_def dirname_def
      basename_def splitext_def lower_def lower_char_def Let_def)

section \<open>Variant B: a target path that is already taken\<close>

text \<open>
  Claim C2. One turn of the loop, for an image of the inventory that is unpacked to a
  file, whose extracted file exists and whose target path exists too. The filesystem
  is left as it was. When the two paths have the same identity, the image's path is
  set to the target, the image is counted as moved, nothing is added to the failures,
  and the only events are the information line and the reload: no error was caught.
  When they differ, the image keeps the path it had, it is added to the failures, and
  the only event is the collision warning: no move is attempted.
\<close>

theorem move_onto_existing_target:
  assumes inv: "name img \<in> fst ` set info"
    and conf: "\<not> packed_file img \<and> source img = ''FILE'' \<and> filepath img \<noteq> []"
    and src: "map_of (files st) (bpy_abspath h (filepath_raw img)) = Some x"
    and tgt: "map_of (files st) (join input_dir (basename (bpy_abspath h (filepath_raw img)))) = Some y"
  shows "files (snd (process_image h input_dir info img st)) = files st \<and>
         (if ident x = ident y
          then filepath (fst (process_image h input_dir info img st)) =
                 join input_dir (basename (bpy_abspath h (filepath_raw img))) \<and>
               moved_count (snd (process_image h input_dir info img st)) = Suc (moved_count st) \<and>
               failed_to_move (snd (process_image h input_dir info img st)) = failed_to_move st \<and>
               events (snd (process_image h input_dir info img st)) =
                 events st @
                 [Report (Info_already_at_target (name img)
                            (join input_dir (basename (bpy_abspath h (filepath_raw img))))),
                  Call (Image_reload (name img))]
          else fst (process_image h input_dir info img st) = img \<and>
               moved_count (snd (process_image h input_dir info img st)) = moved_count st \<and>
               failed_to_move (snd (process_image h input_dir info img st)) =
                 failed_to_move st @
                 [name img @ '' (target exists: '' @ basename (bpy_abspath h (filepath_raw img)) @ '')''] \<and>
               events (snd (process_image h input_dir info img st)) =
                 events st @
                 [Report (Warn_target_exists (name img)
                            (join input_dir (basename (bpy_abspath h (filepath_raw img)))))])"
  using inv conf src tgt
  by (simp add: process_image_def move_unpacked_def samefile_def path_exists_def Let_def)

theorem move_onto_existing_target_witness:
  "filepath (fst (process_image example_host ''/assets''
       (packed_images_info (images_loaded example_host))
       (example_image ''img1.png'' False ''/tmp/textures/img1.png'') collision_state)) = ''/assets/img1.png'' \<and>
   moved_count (snd (process_image example_host ''/assets''
       (packed_images_info (images_loaded example_host))
       (example_image ''img1.png'' False ''/tmp/textures/img1.png'') collision_state)) = 1 \<and>
   files (snd (process_image example_host ''/assets''
       (packed_images_info (images_loaded example_host))
       (example_image ''img2.png'' False ''/tmp/textures/img2.png'') collision_state)) = files collision_state \<and>
   fst (process_image example_host ''/assets''
       (packed_images_info (images_loaded example_host))
       (example_image ''img2.png'' False ''/tmp/textures/img2.png'') collision_state) =
     example_image ''img2.png'' False ''/tmp/textures/img2.png'' \<and>
   failed_to_move (snd (process_image example_host ''/assets''
       (packed_images_info (images_loaded example_host))
       (example_image ''img2.png'' False ''/tmp/textures/img2.png'') collision_state)) =
     [''img2.png (target exists: img2.png)'']"
proof -
  let ?info = "packed_images_info (images_loaded example_host)"
  let ?i1 = "example_image ''img1.png'' False ''/tmp/textures/img1.png''"
  let ?i2 = "example_image ''img2.png'' False ''/tmp/textures/img2.png''"
  have info: "?info = [(''img1.png'', ''img1.png''), (''img2.png'', ''img2.png'')]"
    by (simp add: packed_images_info_def first_occurrences_def example_host_def example_image_def)
  have inv1: "name ?i1 \<in> fst ` set ?info" unfolding info by (simp add: example_image_def)
  have inv2: "name ?i2 \<in> fst ` set ?info" unfolding info by (simp add: example_image_def)
  have c1: "\<not> packed_file ?i1 \<and> source ?i1 = ''FILE'' \<and> filepath ?i1 \<noteq> []"
    by (simp add: example_image_def)
  have c2: "\<not> packed_file ?i2 \<and> source ?i2 = ''FILE'' \<and> filepath ?i2 \<noteq> []"
    by (simp add: example_image_def)
  have s1: "map_of (files collision_state) (bpy_abspath example_host (filepath_raw ?i1)) = Some (File 4)"
    by (simp add: collision_state_def scan_start_def example_host_def example_image_def)
  have t1: "map_of (files collision_state) (join ''/assets'' (basename (bpy_abspath example_host (filepath_raw ?i1)))) = Some (File 4)"
    by (simp add: collision_state_def scan_start_def example_host_def example_image_def join_def basename_def)
  have s2: "map_of (files collision_state) (bpy_abspath example_host (filepath_raw ?i2)) = Some (File 5)"
    by (simp add: collision_state_def scan_start_def example_host_def example_image_def)
  have t2: "map_of (files collision_state) (join ''/assets'' (basename (bpy_abspath example_host (filepath_raw ?i2)))) = Some (File 9)"
    by (simp add: collision_state_def scan_start_def example_host_def example_image_def join_def basename_def)
  have j1: "join ''/assets'' (basename (bpy_abspath example_host (filepath_raw ?i1))) = ''/assets/img1.png''"
    by (simp add: example_host_def example_image_def join_def basename_def)
  have b2: "basename (bpy_abspath example_host (filepath_raw ?i2)) = ''img2.png''"
    by (simp add: example_host_def example_image_def basename_def)
  have m0: "moved_count collision_state = 0" "failed_to_move collision_state = []"
    by (simp_all add: collision_state_def scan_start_def)
  have n2: "name ?i2 = ''img2.png''" by (simp add: example_image_def)
  from move_onto_existing_target[OF inv1 c1 s1 t1] j1 m0
  have w1: "filepath (fst (process_image example_host ''/assets'' ?info ?i1 collision_state)) = ''/assets/img1.png'' \<and>
            moved_count (snd (process_image example_host ''/assets'' ?info ?i1 collision_state)) = 1"
    by simp
  from move_onto_existing_target[OF inv2 c2 s2 t2] b2 m0 n2
  have w2: "files (snd (process_image example_host ''/assets'' ?info ?i2 collision_state)) = files collision_state \<and>
            fst (process_image example_host ''/assets'' ?info ?i2 collision_state) = ?i2 \<and>
            failed_to_move (snd (process_image example_host ''/assets'' ?info ?i2 collision_state)) =
              [''img2.png (target exists: img2.png)'']"
    by simp
  show ?thesis using w1 w2 by blast
qed


section \<open>Variant B: the cleanup of the extraction folders\<close>

lemma path_exists_removed: "d' \<noteq> d \<Longrightarrow> path_exists (removed fs d') d = path_exists fs d"
proof (induction fs)
  case Nil
  then show ?case by (simp add: removed_def path_exists_def)
next
  case (Cons a fs)
  obtain q n where a: "a = (q, n)" by (cases a)
  show ?case using Cons a by (auto simp: removed_def path_exists_def)
qed

lemma not_exists_removed: "\<not> path_exists (removed fs d) d"
proof (induction fs)
  case Nil
  then show ?case by (simp add: removed_def path_exists_def)
next
  case (Cons a fs)
  obtain q n where a: "a = (q, n)" by (cases a)
  show ?case using Cons a by (auto simp: removed_def path_exists_def)
qed

lemma listdir_empty_exists: "listdir fs d = Inr [] \<Longrightarrow> path_exists fs d"
  by (auto simp: listdir_def path_exists_def split: option.splits node.splits)

lemma cleanup_dir_files:
  "fst (cleanup_dir h d fs) =
     (if listdir fs d = Inr [] \<and> rmdir_error h d = None then removed fs d else fs)"
proof (cases "path_exists fs d")
  case False
  then have "listdir fs d \<noteq> Inr []" using listdir_empty_exists by blast
  then show ?thesis using False by (simp add: cleanup_dir_def)
next
  case True
  then show ?thesis
    by (auto simp: cleanup_dir_def split: sum.splits list.splits option.splits)
qed

lemma cleanup_dir_other: "d' \<noteq> d \<Longrightarrow> path_exists (fst (cleanup_dir h d' fs)) d = path_exists fs d"
  by (simp add: cleanup_dir_files path_exists_removed)

lemma cleanup_dirs_other:
  "d \<notin> set ds \<Longrightarrow> path_exists (fst (cleanup_dirs h ds fs)) d = path_exists fs d"
proof (induction ds arbitrary: fs)
  case Nil
  then show ?case by simp
next
  case (Cons a ds)
  obtain fs1 t1 where s1: "cleanup_dir h a fs = (fs1, t1)" by (cases "cleanup_dir h a fs")
  obtain fs2 t2 where s2: "cleanup_dirs h ds fs1 = (fs2, t2)" by (cases "cleanup_dirs h ds fs1")
  have "a \<noteq> d" "d \<notin> set ds" using Cons.prems by auto
  then show ?case using Cons.IH[of fs1] cleanup_dir_other[of a d h fs] s1 s2 by simp
qed

lemma cleanup_dir_events:
  "snd (cleanup_dir h d fs) =
     (if \<not> path_exists fs d then []
      else case listdir fs d of
             Inl e \<Rightarrow> [Report (Warn_could_not_remove d e)]
           | Inr [] \<Rightarrow> (case rmdir_error h d of
                          Some e \<Rightarrow> [Report (Attempting_remove_dir d), Call (Rmdir d),
                                     Report (Warn_could_not_remove d e)]
                        | None \<Rightarrow> [Report (Attempting_remove_dir d), Call (Rmdir d)])
           | Inr (x # xs) \<Rightarrow> [Report (Note_dir_not_empty d)])"
  by (simp add: cleanup_dir_def split: sum.splits list.splits option.splits)

lemma cleanup_dirs_step:
  assumes "d \<in> set ds" "distinct ds"
  shows "path_exists (fst (cleanup_dirs h ds fs)) d =
           path_exists (fst (cleanup_dir h d (files_at h ds fs d))) d \<and>
         set (snd (cleanup_dir h d (files_at h ds fs d))) \<subseteq> set (snd (cleanup_dirs h ds fs))"
  using assms
proof (induction ds arbitrary: fs)
  case Nil
  then show ?case by simp
next
  case (Cons a ds)
  obtain fs1 t1 where s1: "cleanup_dir h a fs = (fs1, t1)" by (cases "cleanup_dir h a fs")
  obtain fs2 t2 where s2: "cleanup_dirs h ds fs1 = (fs2, t2)" by (cases "cleanup_dirs h ds fs1")
  show ?case
  proof (cases "a = d")
    case True
    then have "d \<notin> set ds" using Cons.prems by simp
    from cleanup_dirs_other[OF this, of h fs1] s2
    have "path_exists fs2 d = path_exists fs1 d" by simp
    then show ?thesis using True s1 s2 by (simp add: files_at_def)
  next
    case False
    then have mem: "d \<in> set ds" "distinct ds" using Cons.prems by auto
    have at: "files_at h (a # ds) fs d = files_at h ds fs1 d"
      using False s1 by (simp add: files_at_def split: prod.splits)
    show ?thesis using Cons.IH[OF mem, of fs1] s1 s2 at by auto
  qed
qed

lemma files_at_exists:
  assumes "distinct ds"
  shows "path_exists (files_at h ds fs d) d = path_exists fs d"
proof -
  have "d \<notin> set (takeWhile (\<lambda>x. x \<noteq> d) ds)"
    using set_takeWhileD[of d "\<lambda>x. x \<noteq> d" ds] by auto
  then show ?thesis unfolding files_at_def by (rule cleanup_dirs_other)
qed

lemma cleanup_dirs_folder:
  assumes "d \<in> set ds" and "distinct ds"
  shows "((path_exists fs d \<and> \<not> path_exists (fst (cleanup_dirs h ds fs)) d) =
            (listdir (files_at h ds fs d) d = Inr [] \<and> rmdir_error h d = None)) \<and>
         (\<forall>x xs. listdir (files_at h ds fs d) d = Inr (x # xs) \<longrightarrow>
            path_exists (fst (cleanup_dirs h ds fs)) d \<and>
            Report (Note_dir_not_empty d) \<in> set (snd (cleanup_dirs h ds fs))) \<and>
         (\<forall>e. listdir (files_at h ds fs d) d = Inr [] \<and> rmdir_error h d = Some e \<longrightarrow>
            path_exists (fst (cleanup_dirs h ds fs)) d \<and>
            Report (Warn_could_not_remove d e) \<in> set (snd (cleanup_dirs h ds fs)))"
proof -
  let ?s = "files_at h ds fs d"
  note step = cleanup_dirs_step[OF assms, of h fs]
  have ex: "path_exists ?s d = path_exists fs d" using assms(2) by (rule files_at_exists)
  have fin: "path_exists (fst (cleanup_dirs h ds fs)) d =
      (path_exists fs d \<and> \<not> (listdir ?s d = Inr [] \<and> rmdir_error h d = None))"
    using step ex by (simp add: cleanup_dir_files not_exists_removed)
  have a: "(path_exists fs d \<and> \<not> path_exists (fst (cleanup_dirs h ds fs)) d) =
            (listdir ?s d = Inr [] \<and> rmdir_error h d = None)"
    using fin ex listdir_empty_exists[of ?s d] by blast
  have b: "path_exists (fst (cleanup_dirs h ds fs)) d \<and>
            Report (Note_dir_not_empty d) \<in> set (snd (cleanup_dirs h ds fs))"
    if l: "listdir ?s d = Inr (x # xs)" for x xs
  proof -
    have e: "path_exists ?s d" using l by (auto simp: listdir_def path_exists_def split: option.splits node.splits)
    then have "snd (cleanup_dir h d ?s) = [Report (Note_dir_not_empty d)]"
      using l by (simp add: cleanup_dir_events)
    then show ?thesis using step fin e ex l by auto
  qed
  have c: "path_exists (fst (cleanup_dirs h ds fs)) d \<and>
            Report (Warn_could_not_remove d e) \<in> set (snd (cleanup_dirs h ds fs))"
    if l: "listdir ?s d = Inr [] \<and> rmdir_error h d = Some e" for e
  proof -
    have e: "path_exists ?s d" using l listdir_empty_exists by blast
    then have "Report (Warn_could_not_remove d e) \<in> set (snd (cleanup_dir h d ?s))"
      using l by (simp add: cleanup_dir_events)
    then show ?thesis using step fin e ex l by auto
  qed
  show ?thesis using a b c by blast
qed


lemma move_unpacked_dirs_eq:
  "possible_texture_dirs (snd (move_unpacked h input_dir img st)) =
     (if lower (basename (dirname (bpy_abspath h (filepath_raw img)))) = ''textures''
      then List.insert (dirname (bpy_abspath h (filepath_raw img))) (possible_texture_dirs st)
      else possible_texture_dirs st)"
  by (simp add: move_unpacked_def Let_def split: sum.splits option.splits)

lemma move_unpacked_dirs:
  "possible_texture_dirs (snd (move_unpacked h input_dir img st)) = possible_texture_dirs st \<or>
   (\<exists>d. lower (basename d) = ''textures'' \<and>
        possible_texture_dirs (snd (move_unpacked h input_dir img st)) =
          List.insert d (possible_texture_dirs st))"
  unfolding move_unpacked_dirs_eq by auto

lemma process_image_dirs:
  "possible_texture_dirs (snd (process_image h input_dir info img st)) = possible_texture_dirs st \<or>
   (\<exists>d. lower (basename d) = ''textures'' \<and>
        possible_texture_dirs (snd (process_image h input_dir info img st)) =
          List.insert d (possible_texture_dirs st))"
proof -
  let ?st1 = "st\<lparr>processed_packed_names := List.insert (name img) (processed_packed_names st)\<rparr>"
  have "possible_texture_dirs ?st1 = possible_texture_dirs st" by simp
  then show ?thesis
    using move_unpacked_dirs[of h input_dir img ?st1]
    by (auto simp: process_image_def Let_def)
qed

lemma dirs_ok_insert: "dirs_ok ds \<Longrightarrow> lower (basename d) = ''textures'' \<Longrightarrow> dirs_ok (List.insert d ds)"
  by (auto simp: dirs_ok_def)

lemma process_image_dirs_ok:
  "dirs_ok (possible_texture_dirs st) \<Longrightarrow>
   dirs_ok (possible_texture_dirs (snd (process_image h input_dir info img st)))"
  using process_image_dirs[of h input_dir info img st] dirs_ok_insert by metis

lemma scan_images_dirs_ok:
  "dirs_ok (possible_texture_dirs st) \<Longrightarrow>
   dirs_ok (possible_texture_dirs (snd (scan_images h input_dir info imgs st)))"
proof (induction imgs arbitrary: st)
  case Nil
  then show ?case by simp
next
  case (Cons img imgs)
  obtain img' st1 where p: "process_image h input_dir info img st = (img', st1)"
    by (cases "process_image h input_dir info img st")
  obtain imgs' st2 where r: "scan_images h input_dir info imgs st1 = (imgs', st2)"
    by (cases "scan_images h input_dir info imgs st1")
  have "dirs_ok (possible_texture_dirs st1)"
    using process_image_dirs_ok[OF Cons.prems, of h input_dir info img] p by simp
  from Cons.IH[OF this] r have "dirs_ok (possible_texture_dirs st2)" by simp
  then show ?case using p r by simp
qed

lemma after_moves_dirs_ok: "dirs_ok (possible_texture_dirs (after_moves h input_dir info imgs fs))"
  unfolding after_moves_def
  by (rule scan_images_dirs_ok) (simp add: scan_start_def dirs_ok_def)


lemma iteration_order_ok:
  "distinct xs \<Longrightarrow> distinct (iteration_order h xs) \<and> set (iteration_order h xs) = set xs"
  by (simp add: iteration_order_def Let_def)

lemma map_of_removed: "d' \<noteq> d \<Longrightarrow> map_of (removed fs d') d = map_of fs d"
proof (induction fs)
  case Nil
  then show ?case by (simp add: removed_def)
next
  case (Cons a fs)
  obtain q n where a: "a = (q, n)" by (cases a)
  show ?case using Cons a by (auto simp: removed_def)
qed

lemma keys_removed: "map fst (removed fs d') = filter (\<lambda>q. q \<noteq> d') (map fst fs)"
  by (induction fs) (auto simp: removed_def)

lemma listdir_removed:
  assumes "d' \<noteq> d" and "dirname d' \<noteq> d"
  shows "listdir (removed fs d') d = listdir fs d"
proof -
  have "filter (\<lambda>q. q \<noteq> d \<and> dirname q = d) (filter (\<lambda>q. q \<noteq> d') (map fst fs)) =
        filter (\<lambda>q. q \<noteq> d \<and> dirname q = d) (map fst fs)"
    using assms(2) by (induction fs) auto
  then have eq: "filter (\<lambda>q. q \<noteq> d \<and> dirname q = d) (map fst (removed fs d')) =
        filter (\<lambda>q. q \<noteq> d \<and> dirname q = d) (map fst fs)"
    unfolding keys_removed .
  show ?thesis
    unfolding listdir_def map_of_removed[OF assms(1)] eq ..
qed

lemma listdir_cleanup_dir:
  "d' \<noteq> d \<Longrightarrow> dirname d' \<noteq> d \<Longrightarrow> listdir (fst (cleanup_dir h d' fs)) d = listdir fs d"
  by (simp add: cleanup_dir_files listdir_removed)

lemma listdir_cleanup_dirs:
  "(\<And>d'. d' \<in> set ds \<Longrightarrow> d' \<noteq> d \<and> dirname d' \<noteq> d) \<Longrightarrow>
   listdir (fst (cleanup_dirs h ds fs)) d = listdir fs d"
proof (induction ds arbitrary: fs)
  case Nil
  then show ?case by simp
next
  case (Cons a ds)
  obtain fs1 t1 where s1: "cleanup_dir h a fs = (fs1, t1)" by (cases "cleanup_dir h a fs")
  obtain fs2 t2 where s2: "cleanup_dirs h ds fs1 = (fs2, t2)" by (cases "cleanup_dirs h ds fs1")
  have a: "a \<noteq> d \<and> dirname a \<noteq> d" using Cons.prems by simp
  have "listdir fs1 d = listdir fs d" using listdir_cleanup_dir[of a d h fs] a s1 by simp
  moreover have "listdir fs2 d = listdir fs1 d" using Cons.IH[of fs1] Cons.prems s2 by simp
  ultimately show ?case using s1 s2 by simp
qed

lemma listdir_files_at:
  assumes "\<forall>d' \<in> set ds. d' \<noteq> d \<longrightarrow> dirname d' \<noteq> d"
  shows "listdir (files_at h ds fs d) d = listdir fs d"
  unfolding files_at_def
proof (rule listdir_cleanup_dirs)
  fix d' assume m: "d' \<in> set (takeWhile (\<lambda>x. x \<noteq> d) ds)"
  from set_takeWhileD[OF m] have "d' \<in> set ds" and "d' \<noteq> d" by auto
  then show "d' \<noteq> d \<and> dirname d' \<noteq> d" using assms by blast
qed

lemma process_image_no_inventory: "process_image h input_dir [] img st = (img, st)"
  by (simp add: process_image_def)

lemma scan_images_no_inventory: "scan_images h input_dir [] imgs st = (imgs, st)"
  by (induction imgs arbitrary: st) (simp_all add: process_image_no_inventory)

lemma recorded_needs_inventory:
  "d \<in> set (possible_texture_dirs (after_moves h input_dir info imgs fs)) \<Longrightarrow> info \<noteq> []"
  by (auto simp: after_moves_def scan_images_no_inventory scan_start_def)

lemma reconcile_cleanup:
  "files (snd (reconcile h input_dir info imgs fs)) =
     fst (cleanup_dirs h (iteration_order h (possible_texture_dirs (after_moves h input_dir info imgs fs)))
            (files (after_moves h input_dir info imgs fs))) \<and>
   set (snd (cleanup_dirs h (iteration_order h (possible_texture_dirs (after_moves h input_dir info imgs fs)))
            (files (after_moves h input_dir info imgs fs))))
     \<subseteq> set (events (snd (reconcile h input_dir info imgs fs)))"
  by (auto simp: reconcile_def after_moves_def Let_def split: prod.splits)

text \<open>A run of variant B whose unpack operator returns goes through the reconciliation.\<close>

lemma run_B_returns:
  assumes reset: "\<forall>k. reset_ops h k = None" and imp: "import_fbx h = None"
    and un: "unpack_all h = None" and inp: "isfile (files_start h) p"
    and inv: "packed_images_info (images_loaded h) \<noteq> []"
  shows "\<exists>pre. unpack_fbx_textures h p =
      \<lparr>ended = Returned,
       printed = pre @
         events (snd (reconcile h (dirname p) (packed_images_info (images_loaded h))
                        (images_unpacked h) (files_unpacked h))) @
         finish_B h (dirname p)
           (moved_count (snd (reconcile h (dirname p) (packed_images_info (images_loaded h))
                        (images_unpacked h) (files_unpacked h))))
           (failed_to_move (snd (reconcile h (dirname p) (packed_images_info (images_loaded h))
                        (images_unpacked h) (files_unpacked h)))),
       final_images = fst (reconcile h (dirname p) (packed_images_info (images_loaded h))
                        (images_unpacked h) (files_unpacked h)),
       final_files = files (snd (reconcile h (dirname p) (packed_images_info (images_loaded h))
                        (images_unpacked h) (files_unpacked h)))\<rparr> \<and>
      classes_of pre = (\<lambda>n. {}) \<and> reports pre = []"
proof -
  let ?info = "packed_images_info (images_loaded h)"
  have pos: "length ?info > 0" using inv by simp
  have st: "unpack_stage_B h (length ?info) =
      (None, length ?info, True,
       [Print (Attempting_unpack ''USE_LOCAL''), Call (Unpack_all ''USE_LOCAL''),
        Print Unpack_finished])"
    using pos un by (simp add: unpack_stage_B_def)
  obtain imgs' st1 where r: "reconcile h (dirname p) ?info (images_unpacked h) (files_unpacked h) = (imgs', st1)"
    by (cases "reconcile h (dirname p) ?info (images_unpacked h) (files_unpacked h)")
  define pre where "pre =
      [Print (Processing_fbx p), Print (Target_directory (dirname p)), Call Select_all,
       Call Delete_objects, Call Orphans_purge, Call Orphans_purge, Call Orphans_purge,
       Call (Import_scene p), Print Imported_ok,
       Print (Found_packed (length ?info) (length ?info)),
       Print (Attempting_unpack ''USE_LOCAL''), Call (Unpack_all ''USE_LOCAL''),
       Print Unpack_finished]"
  have run: "unpack_fbx_textures h p =
      \<lparr>ended = Returned,
       printed = pre @ events st1 @ finish_B h (dirname p) (moved_count st1) (failed_to_move st1),
       final_images = imgs', final_files = files st1\<rparr>"
    using reset imp inp st pos r
    by (simp add: unpack_fbx_textures_def Let_def pre_def)
  have c: "classes_of pre = (\<lambda>n. {})"
    by (rule ext) (simp add: pre_def classes_of_def List.map_filter_def)
  have rp: "reports pre = []" by (simp add: pre_def)
  show ?thesis using run r c rp by auto
qed

text \<open>
  Claim C3, as the code has it. In a run of variant B whose unpack operator returns,
  let \<open>d\<close> be a recorded folder. Its name is \<^verbatim>\<open>textures\<close> up to letter case. After all
  moves, \<open>d\<close> is deleted exactly when it is an empty directory at the moment the cleanup
  loop reaches it and the system lets it be removed. When it is not empty at that
  moment it is still there when the run returns and the run has printed that it is
  not empty; when it is empty but cannot be removed it is still there and the run has
  printed a warning. Unless another recorded folder lies directly inside \<open>d\<close>, what
  \<open>d\<close> holds at that moment is what it holds after all moves.
\<close>

theorem textures_folder_cleanup:
  assumes reset: "\<forall>k. reset_ops h k = None" and imp: "import_fbx h = None"
    and un: "unpack_all h = None" and inp: "isfile (files_start h) p"
    and rec: "d \<in> set (recorded_folders h p)"
  shows "lower (basename d) = ''textures'' \<and>
         ended (unpack_fbx_textures h p) = Returned \<and>
         ((path_exists (files (moves_done h p)) d \<and>
           \<not> path_exists (final_files (unpack_fbx_textures h p)) d) =
          (listdir (files_when_reached h p d) d = Inr [] \<and> rmdir_error h d = None)) \<and>
         (\<forall>x xs. listdir (files_when_reached h p d) d = Inr (x # xs) \<longrightarrow>
            path_exists (final_files (unpack_fbx_textures h p)) d \<and>
            Report (Note_dir_not_empty d) \<in> set (printed (unpack_fbx_textures h p))) \<and>
         (\<forall>e. listdir (files_when_reached h p d) d = Inr [] \<and> rmdir_error h d = Some e \<longrightarrow>
            path_exists (final_files (unpack_fbx_textures h p)) d \<and>
            Report (Warn_could_not_remove d e) \<in> set (printed (unpack_fbx_textures h p))) \<and>
         ((\<forall>d' \<in> set (recorded_folders h p). d' \<noteq> d \<longrightarrow> dirname d' \<noteq> d) \<longrightarrow>
            listdir (files_when_reached h p d) d = listdir (files (moves_done h p)) d)"
proof -
  let ?info = "packed_images_info (images_loaded h)"
  let ?st = "moves_done h p"
  let ?ds = "recorded_folders h p"
  have ok: "dirs_ok (possible_texture_dirs ?st)"
    unfolding moves_done_def by (rule after_moves_dirs_ok)
  then have dist0: "distinct (possible_texture_dirs ?st)" by (simp add: dirs_ok_def)
  note io = iteration_order_ok[OF dist0, of h]
  have dist: "distinct ?ds" using io by (simp add: recorded_folders_def)
  have mem: "d \<in> set (possible_texture_dirs ?st)" using rec io by (simp add: recorded_folders_def)
  have nm: "lower (basename d) = ''textures''" using ok mem by (auto simp: dirs_ok_def)
  have inv: "?info \<noteq> []"
    using mem recorded_needs_inventory unfolding moves_done_def by blast
  from run_B_returns[OF reset imp un inp inv] obtain pre where
    run: "unpack_fbx_textures h p =
      \<lparr>ended = Returned,
       printed = pre @
         events (snd (reconcile h (dirname p) ?info (images_unpacked h) (files_unpacked h))) @
         finish_B h (dirname p)
           (moved_count (snd (reconcile h (dirname p) ?info (images_unpacked h) (files_unpacked h))))
           (failed_to_move (snd (reconcile h (dirname p) ?info (images_unpacked h) (files_unpacked h)))),
       final_images = fst (reconcile h (dirname p) ?info (images_unpacked h) (files_unpacked h)),
       final_files = files (snd (reconcile h (dirname p) ?info (images_unpacked h) (files_unpacked h)))\<rparr>"
    by blast
  note rc = reconcile_cleanup[of h "dirname p" ?info "images_unpacked h" "files_unpacked h"]
  have ff: "final_files (unpack_fbx_textures h p) = fst (cleanup_dirs h ?ds (files ?st))"
    unfolding run using rc by (simp add: recorded_folders_def moves_done_def)
  have ev: "set (snd (cleanup_dirs h ?ds (files ?st))) \<subseteq> set (printed (unpack_fbx_textures h p))"
    unfolding run using rc by (auto simp: recorded_folders_def moves_done_def)
  have en: "ended (unpack_fbx_textures h p) = Returned" unfolding run by simp
  note c = cleanup_dirs_folder[OF rec dist, of "files ?st" h]
  have a: "(path_exists (files ?st) d \<and> \<not> path_exists (final_files (unpack_fbx_textures h p)) d) =
          (listdir (files_when_reached h p d) d = Inr [] \<and> rmdir_error h d = None)"
    unfolding ff files_when_reached_def using c by blast
  have b: "\<forall>x xs. listdir (files_when_reached h p d) d = Inr (x # xs) \<longrightarrow>
            path_exists (final_files (unpack_fbx_textures h p)) d \<and>
            Report (Note_dir_not_empty d) \<in> set (printed (unpack_fbx_textures h p))"
    unfolding ff files_when_reached_def using c ev by blast
  have e: "\<forall>e. listdir (files_when_reached h p d) d = Inr [] \<and> rmdir_error h d = Some e \<longrightarrow>
            path_exists (final_files (unpack_fbx_textures h p)) d \<and>
            Report (Warn_could_not_remove d e) \<in> set (printed (unpack_fbx_textures h p))"
    unfolding ff files_when_reached_def using c ev by blast
  have f: "(\<forall>d' \<in> set ?ds. d' \<noteq> d \<longrightarrow> dirname d' \<noteq> d) \<longrightarrow>
            listdir (files_when_reached h p d) d = listdir (files ?st) d"
    unfolding files_when_reached_def using listdir_files_at by blast
  show ?thesis using nm en a b e f by blast
qed

lemmas run_defs = after_moves_def scan_start_def process_image_def move_unpacked_def
      packed_images_info_def first_occurrences_def example_host_def example_image_def
      path_exists_def samefile_def moved_def rename_path_def join_def dirname_def basename_def
      lower_def lower_char_def Let_def

lemma move_unpacked_rmdir:
  "move_unpacked (h\<lparr>rmdir_error := r\<rparr>) input_dir img st = move_unpacked h input_dir img st"
  by (simp add: move_unpacked_def Let_def)

lemma process_image_rmdir:
  "process_image (h\<lparr>rmdir_error := r\<rparr>) input_dir info img st =
   process_image h input_dir info img st"
  by (simp add: process_image_def move_unpacked_rmdir Let_def)

lemma scan_images_rmdir:
  "scan_images (h\<lparr>rmdir_error := r\<rparr>) input_dir info imgs st =
   scan_images h input_dir info imgs st"
  by (induction imgs arbitrary: st) (simp_all add: process_image_rmdir)

theorem textures_folder_cleanup_witness:
  "''/tmp/textures'' \<in> set (recorded_folders example_host ''/assets/model.fbx'') \<and>
   path_exists (files (moves_done example_host ''/assets/model.fbx'')) ''/tmp/textures'' \<and>
   listdir (files (moves_done example_host ''/assets/model.fbx'')) ''/tmp/textures'' = Inr [] \<and>
   \<not> path_exists (final_files (unpack_fbx_textures example_host ''/assets/model.fbx''))
       ''/tmp/textures'' \<and>
   ''/tmp/textures'' \<in> set (recorded_folders collision_host ''/assets/model.fbx'') \<and>
   listdir (files (moves_done collision_host ''/assets/model.fbx'')) ''/tmp/textures'' =
     Inr [''img2.png''] \<and>
   path_exists (final_files (unpack_fbx_textures collision_host ''/assets/model.fbx''))
     ''/tmp/textures'' \<and>
   Report (Note_dir_not_empty ''/tmp/textures'')
     \<in> set (printed (unpack_fbx_textures collision_host ''/assets/model.fbx'')) \<and>
   ''/tmp/textures'' \<in> set (recorded_folders busy_host ''/assets/model.fbx'') \<and>
   path_exists (final_files (unpack_fbx_textures busy_host ''/assets/model.fbx''))
     ''/tmp/textures'' \<and>
   Report (Warn_could_not_remove ''/tmp/textures'' (OSError ''busy''))
     \<in> set (printed (unpack_fbx_textures busy_host ''/assets/model.fbx''))"
proof -
  let ?p = "''/assets/model.fbx''"
  let ?d = "''/tmp/textures''"
  have dn: "dirname ?p = ''/assets''" by (simp add: dirname_def)
  have e1: "moves_done example_host ?p =
      \<lparr>files = [(''/assets'', Dir 1), (''/assets/model.fbx'', File 2), (''/tmp/textures'', Dir 3),
                (''/assets/img1.png'', File 4), (''/assets/img2.png'', File 5)],
       moved_count = 2, failed_to_move = [], still_packed_after = [],
       processed_packed_names = [''img2.png'', ''img1.png''],
       possible_texture_dirs = [''/tmp/textures''],
       events = [Print (Scanning_images ''/assets''),
                 Print (Moving ''/tmp/textures/img1.png'' ''/assets/img1.png''),
                 Call (Shutil_move ''/tmp/textures/img1.png'' ''/assets/img1.png''),
                 Call (Image_reload ''img1.png''),
                 Print (Moving ''/tmp/textures/img2.png'' ''/assets/img2.png''),
                 Call (Shutil_move ''/tmp/textures/img2.png'' ''/assets/img2.png''),
                 Call (Image_reload ''img2.png'')]\<rparr>"
    unfolding moves_done_def dn by (simp add: run_defs)
  have e2: "moves_done collision_host ?p =
      \<lparr>files = [(''/assets/img2.png'', File 9), (''/assets'', Dir 1),
                (''/assets/model.fbx'', File 2), (''/tmp/textures'', Dir 3),
                (''/assets/img1.png'', File 4), (''/tmp/textures/img2.png'', File 5)],
       moved_count = 1, failed_to_move = [''img2.png (target exists: img2.png)''],
       still_packed_after = [],
       processed_packed_names = [''img2.png'', ''img1.png''],
       possible_texture_dirs = [''/tmp/textures''],
       events = [Print (Scanning_images ''/assets''),
                 Print (Moving ''/tmp/textures/img1.png'' ''/assets/img1.png''),
                 Call (Shutil_move ''/tmp/textures/img1.png'' ''/assets/img1.png''),
                 Call (Image_reload ''img1.png''),
                 Report (Warn_target_exists ''img2.png'' ''/assets/img2.png'')]\<rparr>"
    unfolding moves_done_def dn by (simp add: run_defs collision_host_def collision_files_def)
  have e3: "moves_done busy_host ?p = moves_done example_host ?p"
    by (simp add: moves_done_def after_moves_def busy_host_def scan_images_rmdir)
  have o1: "set_order example_host = (\<lambda>xs. xs)" by (simp add: example_host_def)
  have o2: "set_order collision_host = (\<lambda>xs. xs)"
    by (simp add: collision_host_def example_host_def)
  have o3: "set_order busy_host = (\<lambda>xs. xs)" by (simp add: busy_host_def example_host_def)
  have d1: "recorded_folders example_host ?p = [?d]"
    unfolding recorded_folders_def e1 by (simp add: iteration_order_def o1)
  have d2: "recorded_folders collision_host ?p = [?d]"
    unfolding recorded_folders_def e2 by (simp add: iteration_order_def o2)
  have d3: "recorded_folders busy_host ?p = [?d]"
    unfolding recorded_folders_def e3 e1 by (simp add: iteration_order_def o3)
  have l1: "listdir (files_when_reached example_host ?p ?d) ?d = Inr []"
    unfolding files_when_reached_def d1 e1
    by (simp add: files_at_def listdir_def dirname_def basename_def)
  have l2: "listdir (files_when_reached collision_host ?p ?d) ?d = Inr [''img2.png'']"
    unfolding files_when_reached_def d2 e2
    by (simp add: files_at_def listdir_def dirname_def basename_def)
  have l3: "listdir (files_when_reached busy_host ?p ?d) ?d = Inr []"
    unfolding files_when_reached_def d3 e3 e1
    by (simp add: files_at_def listdir_def dirname_def basename_def)
  have a1: "listdir (files (moves_done example_host ?p)) ?d = Inr []"
    unfolding e1 by (simp add: listdir_def dirname_def basename_def)
  have a2: "listdir (files (moves_done collision_host ?p)) ?d = Inr [''img2.png'']"
    unfolding e2 by (simp add: listdir_def dirname_def basename_def)
  have r1: "rmdir_error example_host ?d = None" by (simp add: example_host_def)
  have r3: "rmdir_error busy_host ?d = Some (OSError ''busy'')" by (simp add: busy_host_def)
  have h1: "\<forall>k. reset_ops example_host k = None" "import_fbx example_host = None"
    "unpack_all example_host = None" "isfile (files_start example_host) ?p"
    by (simp_all add: example_host_def isfile_def)
  have h2: "\<forall>k. reset_ops collision_host k = None" "import_fbx collision_host = None"
    "unpack_all collision_host = None" "isfile (files_start collision_host) ?p"
    by (simp_all add: collision_host_def example_host_def isfile_def)
  have h3: "\<forall>k. reset_ops busy_host k = None" "import_fbx busy_host = None"
    "unpack_all busy_host = None" "isfile (files_start busy_host) ?p"
    by (simp_all add: busy_host_def example_host_def isfile_def)
  have m1: "?d \<in> set (recorded_folders example_host ?p)" unfolding d1 by simp
  have m2: "?d \<in> set (recorded_folders collision_host ?p)" unfolding d2 by simp
  have m3: "?d \<in> set (recorded_folders busy_host ?p)" unfolding d3 by simp
  from textures_folder_cleanup[OF h1 m1] l1 r1
  have w1: "path_exists (files (moves_done example_host ?p)) ?d \<and>
            \<not> path_exists (final_files (unpack_fbx_textures example_host ?p)) ?d"
    by simp
  from textures_folder_cleanup[OF h2 m2] l2
  have w2: "path_exists (final_files (unpack_fbx_textures collision_host ?p)) ?d \<and>
            Report (Note_dir_not_empty ?d) \<in> set (printed (unpack_fbx_textures collision_host ?p))"
    by blast
  from textures_folder_cleanup[OF h3 m3] l3 r3
  have w3: "path_exists (final_files (unpack_fbx_textures busy_host ?p)) ?d \<and>
            Report (Warn_could_not_remove ?d (OSError ''busy''))
              \<in> set (printed (unpack_fbx_textures busy_host ?p))"
    by blast
  show ?thesis using m1 m2 m3 w1 w2 w3 a1 a2 by blast
qed

text \<open>
  Claim C3 as stated fails for a recorded folder that holds another recorded folder,
  in a run whose cleanup loop meets the inner folder first: after all moves the outer
  folder is not empty, the cleanup removes the inner folder, then finds the outer one
  empty, and deletes it without any warning.
\<close>

theorem nested_folder_deleted_though_not_empty:
  "recorded_folders nested_host ''/assets/model.fbx'' =
     [''/tmp/t/textures/textures'', ''/tmp/t/textures''] \<and>
   listdir (files (moves_done nested_host ''/assets/model.fbx'')) ''/tmp/t/textures'' =
     Inr [''textures''] \<and>
   ended (unpack_fbx_textures nested_host ''/assets/model.fbx'') = Returned \<and>
   \<not> path_exists (final_files (unpack_fbx_textures nested_host ''/assets/model.fbx''))
       ''/tmp/t/textures'' \<and>
   Report (Note_dir_not_empty ''/tmp/t/textures'')
     \<notin> set (printed (unpack_fbx_textures nested_host ''/assets/model.fbx''))"
proof -
  let ?p = "''/assets/model.fbx''"
  let ?d = "''/tmp/t/textures''"
  have dn: "dirname ?p = ''/assets''" by (simp add: dirname_def)
  have run: "unpack_fbx_textures nested_host ?p =
      \<lparr>ended = Returned,
       printed =
         [Print (Processing_fbx ''/assets/model.fbx''), Print (Target_directory ''/assets''),
          Call Select_all, Call Delete_objects, Call Orphans_purge, Call Orphans_purge,
          Call Orphans_purge, Call (Import_scene ''/assets/model.fbx''), Print Imported_ok,
          Print (Found_packed 2 2), Print (Attempting_unpack ''USE_LOCAL''),
          Call (Unpack_all ''USE_LOCAL''), Print Unpack_finished,
          Print (Scanning_images ''/assets''),
          Print (Moving ''/tmp/t/textures/img1.png'' ''/assets/img1.png''),
          Call (Shutil_move ''/tmp/t/textures/img1.png'' ''/assets/img1.png''),
          Call (Image_reload ''img1.png''),
          Print (Moving ''/tmp/t/textures/textures/img2.png'' ''/assets/img2.png''),
          Call (Shutil_move ''/tmp/t/textures/textures/img2.png'' ''/assets/img2.png''),
          Call (Image_reload ''img2.png''), Print (Finished_moving 2 0 0),
          Report (Attempting_remove_dir ''/tmp/t/textures/textures''),
          Call (Rmdir ''/tmp/t/textures/textures''),
          Report (Attempting_remove_dir ''/tmp/t/textures''),
          Call (Rmdir ''/tmp/t/textures''), Print Processing_finished,
          Print (Successfully_processed 2 ''/assets''), Print Exiting_blender,
          Call Quit_blender],
       final_images =
         [(example_image ''img1.png'' False ''/tmp/t/textures/img1.png'')
            \<lparr>filepath := ''/assets/img1.png''\<rparr>,
          (example_image ''img2.png'' False ''/tmp/t/textures/textures/img2.png'')
            \<lparr>filepath := ''/assets/img2.png''\<rparr>],
       final_files = [(''/assets'', Dir 1), (''/assets/model.fbx'', File 2),
                      (''/assets/img1.png'', File 4), (''/assets/img2.png'', File 6)]\<rparr>"
    unfolding unpack_fbx_textures_def dn
    by (simp add: run_defs nested_host_def reconcile_def unpack_stage_B_def finish_B_def
        cleanup_dir_def listdir_def removed_def iteration_order_def isfile_def headless_def
        missing_after_unpack_def)
  have e: "possible_texture_dirs (moves_done nested_host ?p) =
             [''/tmp/t/textures/textures'', ''/tmp/t/textures''] \<and>
           files (moves_done nested_host ?p) =
             [(''/assets'', Dir 1), (''/assets/model.fbx'', File 2),
              (''/tmp/t/textures'', Dir 3), (''/assets/img1.png'', File 4),
              (''/tmp/t/textures/textures'', Dir 5), (''/assets/img2.png'', File 6)]"
    unfolding moves_done_def dn by (simp add: run_defs nested_host_def)
  have rf: "recorded_folders nested_host ?p = [''/tmp/t/textures/textures'', ''/tmp/t/textures'']"
    unfolding recorded_folders_def using e
    by (simp add: iteration_order_def nested_host_def example_host_def)
  have l: "listdir (files (moves_done nested_host ?p)) ?d = Inr [''textures'']"
    using e by (simp add: listdir_def dirname_def basename_def)
  show ?thesis unfolding run using rf l by (simp add: path_exists_def)
qed


section \<open>Variant B: the classes of the reconciliation\<close>

lemma classes_of_iff:
  "(c \<in> classes_of t n) = (\<exists>ev \<in> set t. class_of_event ev = Some (n, c))"
proof (induction t)
  case Nil
  then show ?case by (simp add: classes_of_def List.map_filter_def)
next
  case (Cons ev t)
  have "classes_of (ev # t) n =
      (case class_of_event ev of None \<Rightarrow> {} | Some mc \<Rightarrow> if fst mc = n then {snd mc} else {})
      \<union> classes_of t n"
    by (cases "class_of_event ev") (simp_all add: classes_of_def List.map_filter_def)
  then show ?case using Cons by (cases "class_of_event ev") auto
qed































section \<open>Both variants: what becomes of the names of the inventory\<close>

lemma reports_map_Report [simp]: "reports (map (\<lambda>x. Report (f x)) xs) = map f xs"
  by (induction xs) simp_all










end
